theory Spec2Isabelle
  imports Complex_Main
begin

section \<open>Groundwater module of SWMM5 (gwater.c)\<close>

text \<open>
  A shallow embedding of the groundwater functions of gwater.c: the state snapshot
  functions, the stored-volume query, the flux calculator (evaporation, percolation,
  deep loss, lateral flow) and the step driver \<open>gwater_getGroundwater\<close>.

  Conventions of the embedding.
  \<^item> A C \<open>double\<close> is a \<open>real\<close>: the fields and the arguments range over all
    reals, the doubles among them. There is no infinity and no NaN. A division by
    zero, which yields an infinity or a NaN in C, has the value 0 in HOL: the model and
    the C program agree where the divisors (the time step, the area, the total depth,
    the conversion factors) are not zero.
  \<^item> In \<open>gwater_getState\<close>, \<open>gwater_setState\<close>, \<open>gwater_getVolume\<close>,
    \<open>getEvapRates\<close> and \<open>getFluxes\<close> every arithmetic operation is rounded as double
    arithmetic rounds it: \<open>dbl\<close> is applied to the exact result of each sum,
    difference, product and quotient, in the order in which C evaluates them. These are
    the functions whose results the statements below compare with one another to the
    last bit. In the other functions (validation, initialisation, percolation, the
    built-in lateral flow, the derivative, the step driver) arithmetic is exact.
  \<^item> A C array (\<open>Subcatch[]\<close>, \<open>Aquifer[]\<close>, \<open>Node[]\<close>, \<open>Pattern[]\<close>,
    \<open>factor[]\<close>) is a total function from the index; an index outside the array,
    undefined behaviour in C, is not distinguished.
  \<^item> A pointer that may be NULL (\<open>groundwater\<close>, \<open>gwLatFlowExpr\<close>,
    \<open>gwDeepFlowExpr\<close>) is an \<open>option\<close>.
  \<^item> The work vector \<open>x[2]\<close> of the step driver is a pair: \<open>x[THETA]\<close> is the first
    component and \<open>x[LOWERDEPTH]\<close> the second.
  \<^item> Mutation of the project \<open>sp\<close> and of its shared scratch structure
    \<open>sp->GwaterShared\<close> is explicit state passing.
\<close>

subsection \<open>Constants and macros\<close>

definition GWTOL :: real where
  "GWTOL = 0.0001"

definition XTOL :: real where
  "XTOL = 0.001"

text \<open>
  The macros \<open>MAX\<close> and \<open>MIN\<close> come from a header that is not part of the sources
  at hand; they are the usual conditional expressions, here \<open>MAX_c\<close> and \<open>MIN_c\<close>.
\<close>

definition MAX_c :: "real \<Rightarrow> real \<Rightarrow> real" where
  "MAX_c x y = (if x \<ge> y then x else y)"

definition MIN_c :: "real \<Rightarrow> real \<Rightarrow> real" where
  "MIN_c x y = (if x \<le> y then x else y)"

subsection \<open>Double arithmetic\<close>

text \<open>
  Rounding to the nearest double, ties to the even significand, as IEEE 754 binary64
  arithmetic rounds the exact result of each operation. \<open>binade x\<close> is the exponent
  \<open>e\<close> with \<open>2^e \<le> |x| < 2^(e+1)\<close>. The doubles of a binade \<open>e \<ge> -1022\<close> are the
  multiples of \<open>2^(e-52)\<close> (a significand of 53 bits); below \<open>2^-1022\<close> they are the
  multiples of \<open>2^-1074\<close> (the subnormal numbers). \<open>rne\<close> rounds a real to the nearest
  integer, a tie to the even one. There is no overflow: a result that C rounds to an
  infinity (a magnitude of \<open>2^1024\<close> or more) is rounded here like any other.
\<close>

definition rne :: "real \<Rightarrow> int" where
  "rne x =
     (let f = \<lfloor>x\<rfloor>;
          r = x - of_int f
      in if r < 1 / 2 then f
         else if 1 / 2 < r then f + 1
         else if even f then f else f + 1)"

definition pow2 :: "int \<Rightarrow> real" where
  "pow2 e = 2 powr of_int e"

definition binade :: "real \<Rightarrow> int" where
  "binade x = \<lfloor>log 2 \<bar>x\<bar>\<rfloor>"

text \<open>The exponent of the spacing of the doubles around \<open>x\<close>.\<close>

definition quantum :: "real \<Rightarrow> int" where
  "quantum x = max (binade x) (- 1022) - 52"

definition dbl :: "real \<Rightarrow> real" where
  "dbl x = sgn x * of_int (rne (\<bar>x\<bar> / pow2 (quantum x))) * pow2 (quantum x)"

text \<open>The kinds of quantity for which gwater.c asks a unit conversion factor.\<close>

datatype UnitQuantity = RAINFALL | LENGTH | LANDAREA | GWFLOW

text \<open>Indexes of the variables a user flow expression may name (enum GWvariables).\<close>

definition gwvHGW :: int where "gwvHGW = 0"
definition gwvHSW :: int where "gwvHSW = 1"
definition gwvHCB :: int where "gwvHCB = 2"
definition gwvHGS :: int where "gwvHGS = 3"
definition gwvKS :: int where "gwvKS = 4"
definition gwvK :: int where "gwvK = 5"
definition gwvTHETA :: int where "gwvTHETA = 6"
definition gwvPHI :: int where "gwvPHI = 7"
definition gwvFI :: int where "gwvFI = 8"
definition gwvFU :: int where "gwvFU = 9"
definition gwvA :: int where "gwvA = 10"

subsection \<open>Data model\<close>

text \<open>A compiled math expression is an opaque handle (a \<open>MathExpr*\<close>).\<close>

type_synonym MathExpr = nat

text \<open>
  The aquifer's \<open>bottomElev\<close>, \<open>waterTableElev\<close> and \<open>upperMoisture\<close> carry the
  prefix \<open>aq_\<close>, since the groundwater object has fields of the same names; the
  field \<open>type\<close> of a time pattern is \<open>patternType\<close>.
\<close>

record TAquifer =
  porosity :: real
  wiltingPoint :: real
  fieldCapacity :: real
  conductivity :: real
  conductSlope :: real
  tensionSlope :: real
  upperEvapFrac :: real
  lowerEvapDepth :: real
  lowerLossCoeff :: real
  aq_bottomElev :: real
  aq_waterTableElev :: real
  aq_upperMoisture :: real
  upperEvapPat :: int

record TGroundwater =
  aquifer :: int
  node :: int
  surfElev :: real
  a1 :: real
  b1 :: real
  a2 :: real
  b2 :: real
  a3 :: real
  fixedDepth :: real
  nodeElev :: real
  bottomElev :: real
  waterTableElev :: real
  upperMoisture :: real
  theta :: real
  lowerDepth :: real
  oldFlow :: real
  newFlow :: real
  evapLoss :: real
  maxInfilVol :: real

record TNode =
  invertElev :: real
  newDepth :: real
  inflow :: real
  newVolume :: real

datatype PatternType = MONTHLY_PATTERN | DAILY_PATTERN | HOURLY_PATTERN | WEEKEND_PATTERN

record TPattern =
  patternType :: PatternType
  factor :: "int \<Rightarrow> real"

record TSubcatch =
  groundwater :: "TGroundwater option"
  gwLatFlowExpr :: "MathExpr option"
  gwDeepFlowExpr :: "MathExpr option"
  area :: real

text \<open>
  The shared scratch structure \<open>sp->GwaterShared\<close>. Its pointer \<open>GW\<close> to the
  groundwater object of the subcatchment at hand is not a field here: the functions
  that read \<open>gwtr->GW->...\<close> take that object as their argument \<open>gw\<close>, and the step
  driver, the only function that writes through the pointer, stores the updated
  object back into \<open>Subcatch[j]\<close>.
\<close>

record TGwaterShared =
  LatFlowExpr :: "MathExpr option"
  DeepFlowExpr :: "MathExpr option"
  A :: TAquifer
  FracPerv :: real
  Area :: real
  Infil :: real
  Tstep :: real
  MaxEvap :: real
  AvailEvap :: real
  TotalDepth :: real
  Hstar :: real
  Hsw :: real
  MaxUpperPerc :: real
  MaxGWFlowPos :: real
  MaxGWFlowNeg :: real
  UpperEvap :: real
  LowerEvap :: real
  UpperPerc :: real
  LowerLoss :: real
  GWFlow :: real
  Hgw :: real
  Theta :: real
  HydCon :: real

text \<open>The two error codes the validation functions report.\<close>

datatype ErrorCode = ERR_AQUIFER_PARAMS | ERR_GROUND_ELEV

text \<open>
  The part of the project the groundwater module reads and writes. The sinks
  \<open>massbal_updateGwaterTotals\<close>, \<open>stats_updateGwaterStats\<close> and
  \<open>report_writeErrorMsg\<close> are functions of other modules: each call is recorded,
  with its arguments, at the end of a log (an error message with the index of the
  object in place of its ID string).
\<close>

record SWMM_Project =
  Subcatch :: "int \<Rightarrow> TSubcatch"
  Aquifer :: "int \<Rightarrow> TAquifer"
  Node :: "int \<Rightarrow> TNode"
  Pattern :: "int \<Rightarrow> TPattern"
  Evap_rate :: real
  GwaterShared :: TGwaterShared
  GwaterTotals :: "(real \<times> real \<times> real \<times> real \<times> real) list"
  GwaterStats :: "(int \<times> real \<times> real \<times> real \<times> real \<times> real \<times> real \<times> real) list"
  ErrorMsgs :: "(ErrorCode \<times> int) list"

subsection \<open>The ODE solver as a black box\<close>

text \<open>
  \<open>odesolve_integrate\<close> belongs to another module. All it can do with the
  groundwater state is call the derivative function it is handed, at points of its
  choice, and finally return a state vector. Such a solver is a tree: a leaf holds the
  vector returned, a node holds the time and the point of the next derivative
  evaluation and, for each derivative vector, the rest of the computation. The tree
  is well-founded: a solver that never returns is not modelled.
\<close>

datatype odesolver =
  Done "real \<times> real"
| Eval real "real \<times> real" "real \<times> real \<Rightarrow> odesolver"

subsection \<open>What the sources at hand do not define\<close>

text \<open>
  Constants and functions of other modules, taken as parameters:
  the sentinel \<open>MISSING\<close>; the unit conversion factors \<open>UCF(sp, q)\<close>; the C library's
  \<open>pow\<close>; the evaluator \<open>mathexpr_eval\<close> of a compiled expression against a provider
  of variable values; \<open>subcatch_getFracPerv(sp, j)\<close>; the month of the year of the
  current runoff time, \<open>datetime_monthOfYear(getDateTime(sp, sp->NewRunoffTime))\<close>;
  and the solver \<open>odesolve_integrate\<close>, which maps its arguments (start vector,
  number of equations, start time, end time, tolerance, first step size) to a solver
  tree.
\<close>

record extern =
  MISSING :: real
  UCF :: "UnitQuantity \<Rightarrow> real"
  pow :: "real \<Rightarrow> real \<Rightarrow> real"
  mathexpr_eval :: "MathExpr \<Rightarrow> (int \<Rightarrow> real) \<Rightarrow> real"
  subcatch_getFracPerv :: "int \<Rightarrow> real"
  monthOfYear :: int
  odesolve_integrate :: "real \<times> real \<Rightarrow> nat \<Rightarrow> real \<Rightarrow> real \<Rightarrow> real \<Rightarrow> real \<Rightarrow> odesolver"

subsection \<open>Validation and initial state\<close>

definition report_writeErrorMsg :: "SWMM_Project \<Rightarrow> ErrorCode \<Rightarrow> int \<Rightarrow> SWMM_Project" where
  "report_writeErrorMsg sp code i = sp\<lparr>ErrorMsgs := ErrorMsgs sp @ [(code, i)]\<rparr>"

definition gwater_validateAquifer :: "SWMM_Project \<Rightarrow> int \<Rightarrow> SWMM_Project" where
  "gwater_validateAquifer sp j =
     (let a = Aquifer sp j;
          sp = (if porosity a \<le> 0
                  \<or> fieldCapacity a \<ge> porosity a
                  \<or> wiltingPoint a \<ge> fieldCapacity a
                  \<or> conductivity a \<le> 0
                  \<or> conductSlope a < 0
                  \<or> tensionSlope a < 0
                  \<or> upperEvapFrac a < 0
                  \<or> lowerEvapDepth a < 0
                  \<or> aq_waterTableElev a < aq_bottomElev a
                  \<or> aq_upperMoisture a > porosity a
                  \<or> aq_upperMoisture a < wiltingPoint a
                then report_writeErrorMsg sp ERR_AQUIFER_PARAMS j
                else sp);
          p = upperEvapPat a
      in if p \<ge> 0 \<and> patternType (Pattern sp p) \<noteq> MONTHLY_PATTERN
         then report_writeErrorMsg sp ERR_AQUIFER_PARAMS j
         else sp)"

definition gwater_validate :: "extern \<Rightarrow> SWMM_Project \<Rightarrow> int \<Rightarrow> SWMM_Project" where
  "gwater_validate ext sp j =
     (case groundwater (Subcatch sp j) of
        None \<Rightarrow> sp
      | Some gw \<Rightarrow>
          let a = Aquifer sp (aquifer gw);
              gw = (if bottomElev gw = MISSING ext
                    then gw\<lparr>bottomElev := aq_bottomElev a\<rparr> else gw);
              gw = (if waterTableElev gw = MISSING ext
                    then gw\<lparr>waterTableElev := aq_waterTableElev a\<rparr> else gw);
              gw = (if upperMoisture gw = MISSING ext
                    then gw\<lparr>upperMoisture := aq_upperMoisture a\<rparr> else gw);
              sp = sp\<lparr>Subcatch := (Subcatch sp)(j := (Subcatch sp j)\<lparr>groundwater := Some gw\<rparr>)\<rparr>
          in if surfElev gw < waterTableElev gw
             then report_writeErrorMsg sp ERR_GROUND_ELEV j
             else sp)"

definition gwater_initState :: "extern \<Rightarrow> SWMM_Project \<Rightarrow> int \<Rightarrow> SWMM_Project" where
  "gwater_initState ext sp j =
     (case groundwater (Subcatch sp j) of
        None \<Rightarrow> sp
      | Some gw \<Rightarrow>
          let a = Aquifer sp (aquifer gw);
              gw = gw\<lparr>theta := upperMoisture gw\<rparr>;
              gw = (if theta gw \<ge> porosity a
                    then gw\<lparr>theta := porosity a - XTOL\<rparr> else gw);
              gw = gw\<lparr>lowerDepth := waterTableElev gw - bottomElev gw\<rparr>;
              gw = (if lowerDepth gw \<ge> surfElev gw - bottomElev gw
                    then gw\<lparr>lowerDepth := surfElev gw - bottomElev gw - XTOL\<rparr> else gw);
              gw = gw\<lparr>oldFlow := 0\<rparr>;
              gw = gw\<lparr>newFlow := 0\<rparr>;
              gw = gw\<lparr>evapLoss := 0\<rparr>;
              gw = gw\<lparr>maxInfilVol := (surfElev gw - waterTableElev gw) *
                                        (porosity a - theta gw) /
                                        subcatch_getFracPerv ext j\<rparr>
          in sp\<lparr>Subcatch := (Subcatch sp)(j := (Subcatch sp j)\<lparr>groundwater := Some gw\<rparr>)\<rparr>)"

subsection \<open>Snapshot and restore\<close>



subsection \<open>Stored volume\<close>


subsection \<open>Flux calculator\<close>

definition getVariableValue :: "extern \<Rightarrow> TGwaterShared \<Rightarrow> int \<Rightarrow> real" where
  "getVariableValue ext gwtr varIndex =
     (if varIndex = gwvHGW then Hgw gwtr * UCF ext LENGTH
      else if varIndex = gwvHSW then Hsw gwtr * UCF ext LENGTH
      else if varIndex = gwvHCB then Hstar gwtr * UCF ext LENGTH
      else if varIndex = gwvHGS then TotalDepth gwtr * UCF ext LENGTH
      else if varIndex = gwvKS then conductivity (A gwtr) * UCF ext RAINFALL
      else if varIndex = gwvK then HydCon gwtr * UCF ext RAINFALL
      else if varIndex = gwvTHETA then Theta gwtr
      else if varIndex = gwvPHI then porosity (A gwtr)
      else if varIndex = gwvFI then Infil gwtr * UCF ext RAINFALL
      else if varIndex = gwvFU then UpperPerc gwtr * UCF ext RAINFALL
      else if varIndex = gwvA then Area gwtr * UCF ext LANDAREA
      else 0)"

text \<open>
  The parameters \<open>theta\<close> and \<open>lowerDepth\<close> of the C functions are written \<open>th\<close>
  and \<open>ld\<close>, since the field names are taken.
\<close>

definition getEvapRates ::
  "extern \<Rightarrow> SWMM_Project \<Rightarrow> TGwaterShared \<Rightarrow> real \<Rightarrow> real \<Rightarrow> TGwaterShared" where
  "getEvapRates ext sp gwtr th upperDepth =
     (let gwtr = gwtr\<lparr>UpperEvap := 0\<rparr>;
          gwtr = gwtr\<lparr>LowerEvap := 0\<rparr>
      in if Infil gwtr > 0 then gwtr
         else
           let upperFrac = upperEvapFrac (A gwtr);
               f = 1;
               p = upperEvapPat (A gwtr);
               f = (if p \<ge> 0 then factor (Pattern sp p) (monthOfYear ext - 1) else f);
               upperFrac = dbl (upperFrac * f);
               gwtr = (if th > wiltingPoint (A gwtr)
                       then let gwtr = gwtr\<lparr>UpperEvap := dbl (upperFrac * MaxEvap gwtr)\<rparr>
                            in gwtr\<lparr>UpperEvap := MIN_c (UpperEvap gwtr) (AvailEvap gwtr)\<rparr>
                       else gwtr)
           in if lowerEvapDepth (A gwtr) > 0
              then
                let lowerFrac = dbl (dbl (lowerEvapDepth (A gwtr) - upperDepth) /
                                     lowerEvapDepth (A gwtr));
                    lowerFrac = MAX_c 0 lowerFrac;
                    lowerFrac = MIN_c lowerFrac 1;
                    gwtr = gwtr\<lparr>LowerEvap :=
                             dbl (dbl (lowerFrac * dbl (1 - upperFrac)) * MaxEvap gwtr)\<rparr>
                in gwtr\<lparr>LowerEvap :=
                     MIN_c (LowerEvap gwtr) (dbl (AvailEvap gwtr - UpperEvap gwtr))\<rparr>
              else gwtr)"

text \<open>\<open>getUpperPerc\<close> returns the percolation rate and, past its guard, stores \<open>HydCon\<close>.\<close>

definition getUpperPerc :: "TGwaterShared \<Rightarrow> real \<Rightarrow> real \<Rightarrow> real \<times> TGwaterShared" where
  "getUpperPerc gwtr th upperDepth =
     (if upperDepth \<le> 0 \<or> th \<le> fieldCapacity (A gwtr) then (0, gwtr)
      else
        let delta = th - porosity (A gwtr);
            hydcon = conductivity (A gwtr) * exp (delta * conductSlope (A gwtr));
            delta = th - fieldCapacity (A gwtr);
            dhdz = 1 + tensionSlope (A gwtr) * 2 * delta / upperDepth;
            gwtr = gwtr\<lparr>HydCon := hydcon\<rparr>
        in (hydcon * dhdz, gwtr))"

definition getGWFlow :: "extern \<Rightarrow> TGroundwater \<Rightarrow> TGwaterShared \<Rightarrow> real \<Rightarrow> real" where
  "getGWFlow ext gw gwtr ld =
     (if ld \<le> Hstar gwtr then 0
      else
        let t1 = (if b1 gw = 0 then a1 gw
                  else a1 gw * pow ext ((ld - Hstar gwtr) * UCF ext LENGTH) (b1 gw));
            t2 = (if b2 gw = 0 then a2 gw
                  else if Hsw gwtr > Hstar gwtr
                  then a2 gw * pow ext ((Hsw gwtr - Hstar gwtr) * UCF ext LENGTH) (b2 gw)
                  else 0);
            t3 = a3 gw * ld * Hsw gwtr * UCF ext LENGTH * UCF ext LENGTH;
            q = (t1 - t2 + t3) / UCF ext GWFLOW;
            q = (if q < 0 \<and> a3 gw \<noteq> 0 then 0 else q)
        in q)"

definition getFluxes ::
  "extern \<Rightarrow> SWMM_Project \<Rightarrow> TGroundwater \<Rightarrow> TGwaterShared \<Rightarrow> real \<Rightarrow> real \<Rightarrow> TGwaterShared" where
  "getFluxes ext sp gw gwtr th ld =
     (let ld = MAX_c ld 0;
          ld = MIN_c ld (TotalDepth gwtr);
          upperDepth = dbl (TotalDepth gwtr - ld);
          gwtr = gwtr\<lparr>Hgw := ld\<rparr>;
          gwtr = gwtr\<lparr>Theta := th\<rparr>;
          gwtr = getEvapRates ext sp gwtr th upperDepth;
          (perc, gwtr) = getUpperPerc gwtr th upperDepth;
          gwtr = gwtr\<lparr>UpperPerc := perc\<rparr>;
          gwtr = gwtr\<lparr>UpperPerc := MIN_c (UpperPerc gwtr) (MaxUpperPerc gwtr)\<rparr>;
          gwtr = (case DeepFlowExpr gwtr of
                    Some e \<Rightarrow>
                      gwtr\<lparr>LowerLoss :=
                        dbl (mathexpr_eval ext e (getVariableValue ext gwtr) /
                             UCF ext RAINFALL)\<rparr>
                  | None \<Rightarrow>
                      gwtr\<lparr>LowerLoss :=
                        dbl (dbl (lowerLossCoeff (A gwtr) * ld) / TotalDepth gwtr)\<rparr>);
          gwtr = gwtr\<lparr>LowerLoss := MIN_c (LowerLoss gwtr) (dbl (ld / Tstep gwtr))\<rparr>;
          gwtr = gwtr\<lparr>GWFlow := getGWFlow ext gw gwtr ld\<rparr>;
          gwtr = (case LatFlowExpr gwtr of
                    Some e \<Rightarrow>
                      gwtr\<lparr>GWFlow :=
                        dbl (GWFlow gwtr +
                             dbl (mathexpr_eval ext e (getVariableValue ext gwtr) /
                                  UCF ext GWFLOW))\<rparr>
                  | None \<Rightarrow> gwtr)
      in if GWFlow gwtr \<ge> 0
         then gwtr\<lparr>GWFlow := MIN_c (GWFlow gwtr) (MaxGWFlowPos gwtr)\<rparr>
         else gwtr\<lparr>GWFlow := MAX_c (GWFlow gwtr) (MaxGWFlowNeg gwtr)\<rparr>)"

definition getDxDt ::
  "extern \<Rightarrow> SWMM_Project \<Rightarrow> TGroundwater \<Rightarrow> TGwaterShared \<Rightarrow> real \<Rightarrow> real \<times> real
     \<Rightarrow> (real \<times> real) \<times> TGwaterShared" where
  "getDxDt ext sp gw gwtr t x =
     (let gwtr = getFluxes ext sp gw gwtr (fst x) (snd x);
          qUpper = Infil gwtr - UpperEvap gwtr - UpperPerc gwtr;
          qLower = UpperPerc gwtr - LowerLoss gwtr - LowerEvap gwtr - GWFlow gwtr;
          denom = TotalDepth gwtr - snd x;
          dTheta = (if denom > 0 then qUpper / denom else 0);
          denom = porosity (A gwtr) - fst x;
          dLowerDepth = (if denom > 0 then qLower / denom else 0)
      in ((dTheta, dLowerDepth), gwtr))"

text \<open>
  Running a solver tree against a derivative function that, like \<open>getDxDt\<close>,
  updates the shared structure at each evaluation.
\<close>

primrec odesolve_run ::
  "(TGwaterShared \<Rightarrow> real \<Rightarrow> real \<times> real \<Rightarrow> (real \<times> real) \<times> TGwaterShared)
     \<Rightarrow> odesolver \<Rightarrow> TGwaterShared \<Rightarrow> (real \<times> real) \<times> TGwaterShared" where
  "odesolve_run derivs (Done x) = (\<lambda>gwtr. (x, gwtr))"
| "odesolve_run derivs (Eval t x k) =
     (\<lambda>gwtr. case derivs gwtr t x of (dxdt, gwtr') \<Rightarrow> odesolve_run derivs (k dxdt) gwtr')"

subsection \<open>Step driver\<close>

definition massbal_updateGwaterTotals ::
  "SWMM_Project \<Rightarrow> real \<Rightarrow> real \<Rightarrow> real \<Rightarrow> real \<Rightarrow> real \<Rightarrow> SWMM_Project" where
  "massbal_updateGwaterTotals sp vInfil vUpperEvap vLowerEvap vLowerPerc vGwater =
     sp\<lparr>GwaterTotals := GwaterTotals sp @ [(vInfil, vUpperEvap, vLowerEvap, vLowerPerc, vGwater)]\<rparr>"

definition stats_updateGwaterStats ::
  "SWMM_Project \<Rightarrow> int \<Rightarrow> real \<Rightarrow> real \<Rightarrow> real \<Rightarrow> real \<Rightarrow> real \<Rightarrow> real \<Rightarrow> real \<Rightarrow> SWMM_Project" where
  "stats_updateGwaterStats sp j infil evap latFlow deepFlow th waterTable tStep =
     sp\<lparr>GwaterStats := GwaterStats sp @ [(j, infil, evap, latFlow, deepFlow, th, waterTable, tStep)]\<rparr>"

text \<open>
  \<open>updateMassBal\<close> reads the shared structure of the project and, through its
  pointer \<open>GW\<close>, the groundwater object \<open>gw\<close>.
\<close>

definition updateMassBal :: "SWMM_Project \<Rightarrow> TGroundwater \<Rightarrow> real \<Rightarrow> real \<Rightarrow> SWMM_Project" where
  "updateMassBal sp gw ar tStep =
     (let ft2sec = ar * tStep;
          gwtr = GwaterShared sp;
          vInfil = Infil gwtr * ft2sec;
          vUpperEvap = UpperEvap gwtr * ft2sec;
          vLowerEvap = LowerEvap gwtr * ft2sec;
          vLowerPerc = LowerLoss gwtr * ft2sec;
          vGwater = 0.5 * (oldFlow gw + newFlow gw) * ft2sec
      in massbal_updateGwaterTotals sp vInfil vUpperEvap vLowerEvap vLowerPerc vGwater)"

text \<open>
  The step driver \<open>gwater_getGroundwater\<close> is one long function. Its last two
  blocks are definitions of their own here, named after the comments that open them
  in the source: \<open>keepWithinBounds\<close> is the block "keep state variables within
  allowable bounds", on the work vector \<open>x\<close> the solver has returned, and
  \<open>saveStateValues\<close> is the block "save new values of state values" with all that
  follows it to the end of the function (the fluxes at the final state, the flows and the
  evaporation loss of the groundwater object, its next infiltration capacity, the mass
  balance and the statistics).
\<close>

definition keepWithinBounds :: "TGwaterShared \<Rightarrow> real \<times> real \<Rightarrow> real \<times> real" where
  "keepWithinBounds gwtr x =
     (let x = (MAX_c (fst x) (wiltingPoint (A gwtr)), snd x);
          x = (if fst x \<ge> porosity (A gwtr)
               then (porosity (A gwtr) - XTOL, TotalDepth gwtr - XTOL)
               else x);
          x = (fst x, MAX_c (snd x) 0);
          x = (if snd x \<ge> TotalDepth gwtr
               then (fst x, TotalDepth gwtr - XTOL)
               else x)
      in x)"

definition saveStateValues ::
  "extern \<Rightarrow> SWMM_Project \<Rightarrow> int \<Rightarrow> TGroundwater \<Rightarrow> TGwaterShared \<Rightarrow> real \<times> real
     \<Rightarrow> real \<Rightarrow> real \<Rightarrow> SWMM_Project" where
  "saveStateValues ext sp j gw gwtr x infil tStep =
     (let gw = gw\<lparr>theta := fst x\<rparr>;
          gw = gw\<lparr>lowerDepth := snd x\<rparr>;
          gwtr = getFluxes ext sp gw gwtr (theta gw) (lowerDepth gw);
          gw = gw\<lparr>oldFlow := newFlow gw\<rparr>;
          gw = gw\<lparr>newFlow := GWFlow gwtr\<rparr>;
          gw = gw\<lparr>evapLoss := UpperEvap gwtr + LowerEvap gwtr\<rparr>;
          gw = gw\<lparr>maxInfilVol := (TotalDepth gwtr - snd x) *
                                    (porosity (A gwtr) - fst x) / FracPerv gwtr\<rparr>;
          sp = sp\<lparr>Subcatch := (Subcatch sp)(j := (Subcatch sp j)\<lparr>groundwater := Some gw\<rparr>)\<rparr>;
          sp = sp\<lparr>GwaterShared := gwtr\<rparr>;
          sp = updateMassBal sp gw (Area gwtr) tStep
      in stats_updateGwaterStats sp j infil (evapLoss gw) (GWFlow gwtr)
           (LowerLoss gwtr) (theta gw) (lowerDepth gw + bottomElev gw) tStep)"

text \<open>
  At its first return the C code has only set the pointer \<open>GW\<close> of the shared
  structure to NULL, which the model does not hold: the project is returned as it is.
  At the two later returns the shared structure holds what has been stored so far.
\<close>

definition gwater_getGroundwater ::
  "extern \<Rightarrow> SWMM_Project \<Rightarrow> int \<Rightarrow> real \<Rightarrow> real \<Rightarrow> real \<Rightarrow> SWMM_Project" where
  "gwater_getGroundwater ext sp j evap infil tStep =
     (case groundwater (Subcatch sp j) of
        None \<Rightarrow> sp
      | Some gw \<Rightarrow>
          let gwtr = GwaterShared sp;
              gwtr = gwtr\<lparr>LatFlowExpr := gwLatFlowExpr (Subcatch sp j)\<rparr>;
              gwtr = gwtr\<lparr>DeepFlowExpr := gwDeepFlowExpr (Subcatch sp j)\<rparr>;
              gwtr = gwtr\<lparr>A := Aquifer sp (aquifer gw)\<rparr>;
              gwtr = gwtr\<lparr>FracPerv := subcatch_getFracPerv ext j\<rparr>
          in if FracPerv gwtr \<le> 0 then sp\<lparr>GwaterShared := gwtr\<rparr>
             else
               let gwtr = gwtr\<lparr>Area := area (Subcatch sp j)\<rparr>;
                   infil = infil / Area gwtr / tStep;
                   gwtr = gwtr\<lparr>Infil := infil\<rparr>;
                   gwtr = gwtr\<lparr>Tstep := tStep\<rparr>;
                   evap = evap / Area gwtr / tStep;
                   gwtr = gwtr\<lparr>MaxEvap := Evap_rate sp * FracPerv gwtr\<rparr>;
                   gwtr = gwtr\<lparr>AvailEvap := MAX_c (MaxEvap gwtr - evap) 0\<rparr>;
                   gwtr = gwtr\<lparr>TotalDepth := surfElev gw - bottomElev gw\<rparr>
               in if TotalDepth gwtr \<le> 0 then sp\<lparr>GwaterShared := gwtr\<rparr>
                  else
                    let n = node gw;
                        gwtr = gwtr\<lparr>Hstar :=
                                 (if nodeElev gw \<noteq> MISSING ext
                                  then nodeElev gw - bottomElev gw
                                  else invertElev (Node sp n) - bottomElev gw)\<rparr>;
                        gwtr = gwtr\<lparr>Hsw :=
                                 (if fixedDepth gw > 0
                                  then fixedDepth gw + invertElev (Node sp n) - bottomElev gw
                                  else newDepth (Node sp n) + invertElev (Node sp n) -
                                       bottomElev gw)\<rparr>;
                        x = (theta gw, lowerDepth gw);
                        vUpper = (TotalDepth gwtr - snd x) * (fst x - fieldCapacity (A gwtr));
                        vUpper = MAX_c 0 vUpper;
                        gwtr = gwtr\<lparr>MaxUpperPerc := vUpper / tStep\<rparr>;
                        gwtr = gwtr\<lparr>MaxGWFlowPos := snd x * porosity (A gwtr) / tStep\<rparr>;
                        gwtr = gwtr\<lparr>MaxGWFlowNeg := (TotalDepth gwtr - snd x) *
                                                      (porosity (A gwtr) - fst x) / tStep\<rparr>;
                        nodeFlow = (inflow (Node sp n) + newVolume (Node sp n) / tStep) / Area gwtr;
                        gwtr = gwtr\<lparr>MaxGWFlowNeg := - MIN_c (MaxGWFlowNeg gwtr) nodeFlow\<rparr>;
                        (x, gwtr) = odesolve_run (getDxDt ext sp gw)
                                      (odesolve_integrate ext x 2 0 tStep GWTOL tStep) gwtr;
                        x = keepWithinBounds gwtr x
                    in saveStateValues ext sp j gw gwtr x infil tStep)"

subsection \<open>Notions used in the statements\<close>

text \<open>
  The value of the local variable \<open>q\<close> of \<open>getGWFlow\<close> before its last test: the
  groundwater term minus the surface water term plus the interaction term, divided by
  the conversion factor for groundwater flow.
\<close>

definition builtinFlow :: "extern \<Rightarrow> TGroundwater \<Rightarrow> TGwaterShared \<Rightarrow> real \<Rightarrow> real" where
  "builtinFlow ext gw gwtr ld =
     ((if b1 gw = 0 then a1 gw
       else a1 gw * pow ext ((ld - Hstar gwtr) * UCF ext LENGTH) (b1 gw))
      - (if b2 gw = 0 then a2 gw
         else if Hsw gwtr > Hstar gwtr
         then a2 gw * pow ext ((Hsw gwtr - Hstar gwtr) * UCF ext LENGTH) (b2 gw)
         else 0)
      + a3 gw * ld * Hsw gwtr * UCF ext LENGTH * UCF ext LENGTH) / UCF ext GWFLOW"

text \<open>
  The fields of the shared structure that the step driver stores before it calls the
  solver and that the flux calculator only reads.
\<close>

definition stepSetup ::
  "TGwaterShared \<Rightarrow> (MathExpr option \<times> MathExpr option \<times> TAquifer) \<times> real list" where
  "stepSetup gwtr =
     ((LatFlowExpr gwtr, DeepFlowExpr gwtr, A gwtr),
      [FracPerv gwtr, Area gwtr, Infil gwtr, Tstep gwtr, MaxEvap gwtr, AvailEvap gwtr,
       TotalDepth gwtr, Hstar gwtr, Hsw gwtr, MaxUpperPerc gwtr, MaxGWFlowPos gwtr,
       MaxGWFlowNeg gwtr])"

text \<open>The shared structure as the step driver hands it to the solver.\<close>

definition stepContext ::
  "extern \<Rightarrow> SWMM_Project \<Rightarrow> int \<Rightarrow> TGroundwater \<Rightarrow> real \<Rightarrow> real \<Rightarrow> real \<Rightarrow> TGwaterShared" where
  "stepContext ext sp j gw evap infil tStep =
     (GwaterShared sp)\<lparr>
        LatFlowExpr := gwLatFlowExpr (Subcatch sp j),
        DeepFlowExpr := gwDeepFlowExpr (Subcatch sp j),
        A := Aquifer sp (aquifer gw),
        FracPerv := subcatch_getFracPerv ext j,
        Area := area (Subcatch sp j),
        Infil := infil / area (Subcatch sp j) / tStep,
        Tstep := tStep,
        MaxEvap := Evap_rate sp * subcatch_getFracPerv ext j,
        AvailEvap := MAX_c (Evap_rate sp * subcatch_getFracPerv ext j -
                            evap / area (Subcatch sp j) / tStep) 0,
        TotalDepth := surfElev gw - bottomElev gw,
        Hstar := (if nodeElev gw \<noteq> MISSING ext then nodeElev gw - bottomElev gw
                  else invertElev (Node sp (node gw)) - bottomElev gw),
        Hsw := (if fixedDepth gw > 0
                then fixedDepth gw + invertElev (Node sp (node gw)) - bottomElev gw
                else newDepth (Node sp (node gw)) + invertElev (Node sp (node gw)) -
                     bottomElev gw),
        MaxUpperPerc := MAX_c 0 ((surfElev gw - bottomElev gw - lowerDepth gw) *
                          (theta gw - fieldCapacity (Aquifer sp (aquifer gw)))) / tStep,
        MaxGWFlowPos := lowerDepth gw * porosity (Aquifer sp (aquifer gw)) / tStep,
        MaxGWFlowNeg := - MIN_c ((surfElev gw - bottomElev gw - lowerDepth gw) *
                          (porosity (Aquifer sp (aquifer gw)) - theta gw) / tStep)
                          ((inflow (Node sp (node gw)) + newVolume (Node sp (node gw)) / tStep) /
                           area (Subcatch sp j))\<rparr>"

text \<open>What the solver returns in the step driver: the work vector and the shared structure.\<close>

definition integrated ::
  "extern \<Rightarrow> SWMM_Project \<Rightarrow> int \<Rightarrow> TGroundwater \<Rightarrow> real \<Rightarrow> real \<Rightarrow> real
     \<Rightarrow> (real \<times> real) \<times> TGwaterShared" where
  "integrated ext sp j gw evap infil tStep =
     odesolve_run (getDxDt ext sp gw)
       (odesolve_integrate ext (theta gw, lowerDepth gw) 2 0 tStep GWTOL tStep)
       (stepContext ext sp j gw evap infil tStep)"

text \<open>A project in which the groundwater object of subcatchment \<open>j\<close> is \<open>gw\<close>.\<close>

definition withGroundwater :: "SWMM_Project \<Rightarrow> int \<Rightarrow> TGroundwater \<Rightarrow> SWMM_Project" where
  "withGroundwater sp j gw =
     sp\<lparr>Subcatch := (Subcatch sp)(j := (Subcatch sp j)\<lparr>groundwater := Some gw\<rparr>)\<rparr>"

subsection \<open>Concrete data\<close>

text \<open>
  A solver that evaluates the derivative once, at the start vector, and takes a single
  step of the whole interval.
\<close>

definition oneStep :: "real \<times> real \<Rightarrow> nat \<Rightarrow> real \<Rightarrow> real \<Rightarrow> real \<Rightarrow> real \<Rightarrow> odesolver" where
  "oneStep x n t0 t1 eps h =
     Eval t0 x (\<lambda>dxdt. Done (fst x + (t1 - t0) * fst dxdt, snd x + (t1 - t0) * snd dxdt))"

text \<open>
  Factors of 1 for all units, a wholly pervious subcatchment, a user expression
  \<open>2 * THETA\<close>, and SWMM's value of \<open>MISSING\<close>.
\<close>

definition exExtern :: extern where
  "exExtern =
     \<lparr>MISSING = - 10000000000, UCF = (\<lambda>q. 1), pow = (\<lambda>x y. x powr y),
      mathexpr_eval = (\<lambda>e v. 2 * v gwvTHETA), subcatch_getFracPerv = (\<lambda>j. 1),
      monthOfYear = 1, odesolve_integrate = oneStep\<rparr>"

definition exAquifer :: TAquifer where
  "exAquifer =
     \<lparr>porosity = 0.43, wiltingPoint = 0.09, fieldCapacity = 0.2, conductivity = 1,
      conductSlope = 0, tensionSlope = 0, upperEvapFrac = 0.5, lowerEvapDepth = 2,
      lowerLossCoeff = 0.002, aq_bottomElev = 0, aq_waterTableElev = 2,
      aq_upperMoisture = 0.15, upperEvapPat = - 1\<rparr>"

text \<open>
  The groundwater parameters of a subcatchment as they are read: ground at 6 ft, no
  lateral flow coefficients, and the four optional values left out.
\<close>

definition exGroundwater :: TGroundwater where
  "exGroundwater =
     \<lparr>aquifer = 0, node = 0, surfElev = 6, a1 = 0, b1 = 0, a2 = 0, b2 = 0, a3 = 0,
      fixedDepth = 0, nodeElev = - 10000000000, bottomElev = - 10000000000,
      waterTableElev = - 10000000000, upperMoisture = - 10000000000,
      theta = 0, lowerDepth = 0, oldFlow = 0, newFlow = 0, evapLoss = 0, maxInfilVol = 0\<rparr>"

definition exShared :: TGwaterShared where
  "exShared =
     \<lparr>LatFlowExpr = None, DeepFlowExpr = None, A = exAquifer, FracPerv = 0, Area = 0,
      Infil = 0, Tstep = 0, MaxEvap = 0, AvailEvap = 0, TotalDepth = 0, Hstar = 0, Hsw = 0,
      MaxUpperPerc = 0, MaxGWFlowPos = 0, MaxGWFlowNeg = 0, UpperEvap = 0, LowerEvap = 0,
      UpperPerc = 0, LowerLoss = 0, GWFlow = 0, Hgw = 0, Theta = 0, HydCon = 0\<rparr>"

text \<open>
  A project whose subcatchments all have the groundwater parameters \<open>gw\<close>, an area of
  1 ft2 and no flow expressions, whose aquifers are all \<open>a\<close>, with dry nodes at
  elevation 0 and no evaporation.
\<close>

definition exProject :: "TAquifer \<Rightarrow> TGroundwater \<Rightarrow> SWMM_Project" where
  "exProject a gw =
     \<lparr>Subcatch = (\<lambda>i. \<lparr>groundwater = Some gw, gwLatFlowExpr = None,
                          gwDeepFlowExpr = None, area = 1\<rparr>),
      Aquifer = (\<lambda>i. a),
      Node = (\<lambda>i. \<lparr>invertElev = 0, newDepth = 0, inflow = 0, newVolume = 0\<rparr>),
      Pattern = (\<lambda>i. \<lparr>patternType = MONTHLY_PATTERN, factor = (\<lambda>m. 1)\<rparr>),
      Evap_rate = 0, GwaterShared = exShared, GwaterTotals = [], GwaterStats = [],
      ErrorMsgs = []\<rparr>"

text \<open>Validation and initialisation of aquifer 0 and subcatchment 0, as at the start of a run.\<close>

definition started :: "SWMM_Project \<Rightarrow> SWMM_Project" where
  "started sp =
     gwater_initState exExtern (gwater_validate exExtern (gwater_validateAquifer sp 0) 0) 0"

text \<open>
  An aquifer whose wilting point lies within \<open>XTOL\<close> of its porosity, with the water
  table 1 ft below the ground of \<open>exGroundwater\<close>.
\<close>

definition tightAquifer :: TAquifer where
  "tightAquifer =
     exAquifer\<lparr>wiltingPoint := 0.4295, fieldCapacity := 0.4298, aq_upperMoisture := 0.4296,
               aq_waterTableElev := 5, upperEvapFrac := 0, lowerEvapDepth := 0,
               lowerLossCoeff := 0\<rparr>"

definition tightStart :: TGroundwater where
  "tightStart =
     exGroundwater\<lparr>bottomElev := 0, waterTableElev := 5, upperMoisture := 0.4296,
                   theta := 0.4296, lowerDepth := 5, maxInfilVol := 0.0004\<rparr>"

text \<open>
  Groundwater parameters with the ground, the water table and the threshold of the node
  all 0.0008 ft above the bottom of the aquifer.
\<close>

definition thinGroundwater :: TGroundwater where
  "thinGroundwater =
     exGroundwater\<lparr>surfElev := 0.0008, waterTableElev := 0.0008, nodeElev := 0.0008\<rparr>"

definition thinStart :: TGroundwater where
  "thinStart =
     thinGroundwater\<lparr>bottomElev := 0, upperMoisture := 0.15, theta := 0.15,
                     lowerDepth := - 0.0002, maxInfilVol := 0\<rparr>"

text \<open>The state of \<open>exGroundwater\<close> over \<open>exAquifer\<close> at the start of a run.\<close>

definition exStart :: TGroundwater where
  "exStart =
     exGroundwater\<lparr>bottomElev := 0, waterTableElev := 2, upperMoisture := 0.15,
                   theta := 0.15, lowerDepth := 2, maxInfilVol := 1.12\<rparr>"

text \<open>
  Two first steps of a run: over \<open>tightAquifer\<close>, with an infiltration volume that
  fills the upper zone exactly (the \<open>maxInfilVol\<close> of the initial state); and over
  \<open>thinGroundwater\<close>, with no infiltration.
\<close>

definition tightRun :: SWMM_Project where
  "tightRun =
     gwater_getGroundwater exExtern (started (exProject tightAquifer exGroundwater)) 0 0 0.0004 1"

definition thinRun :: SWMM_Project where
  "thinRun =
     gwater_getGroundwater exExtern (started (exProject exAquifer thinGroundwater)) 0 0 0 1"




text \<open>
  A shared structure in which an eighth of the evaporation is taken from the upper
  zone, the lower zone evaporates down to 1 ft, the maximum evaporation rate is
  \<open>(2 + 12 * 2^-52) * 2^-21\<close> ft/s and \<open>(7/4 + 3 * 2^-52) * 2^-21\<close> ft/s of it are
  available.
\<close>

definition evapShared :: TGwaterShared where
  "evapShared =
     exShared\<lparr>A := exAquifer\<lparr>upperEvapFrac := 1 / 8, lowerEvapDepth := 1\<rparr>,
              MaxEvap := 9007199254741004 / 2 ^ 73,
              AvailEvap := 7881299347898371 / 2 ^ 73\<rparr>"

text \<open>
  A shared structure for an aquifer 4 ft deep with a deep loss coefficient of
  1/512 ft/s and a time step of an hour.
\<close>

definition lossShared :: TGwaterShared where
  "lossShared =
     exShared\<lparr>A := exAquifer\<lparr>lowerLossCoeff := 1 / 512\<rparr>, Tstep := 3600, TotalDepth := 4\<rparr>"




section \<open>Properties\<close>

subsection \<open>Macros\<close>

lemma MAX_c_max: "MAX_c x y = max x y"
  by (simp add: MAX_c_def max_def)

lemma MIN_c_min: "MIN_c x y = min x y"
  by (simp add: MIN_c_def min_def)

subsection \<open>Rounding to a double\<close>

text \<open>
  Rounding is monotone and keeps 0 and the sign; in the normal range it moves a value
  by at most one part in \<open>2^53\<close>; within a known binade it is a rounding of the
  significand, which is how concrete values are computed below.
\<close>

lemma pow2_pos: "0 < pow2 e"
  by (simp add: pow2_def)

lemma pow2_add: "pow2 (a + b) = pow2 a * pow2 b"
  by (simp add: pow2_def powr_add)


lemma pow2_numeral: "pow2 (numeral n) = 2 ^ numeral n" "pow2 0 = 1" "pow2 1 = 2"
  "pow2 (- numeral n) = 1 / 2 ^ numeral n" "pow2 (- 1) = 1 / 2"
  by (simp_all add: pow2_def powr_minus divide_simps)

lemma binade_bounds:
  assumes "x \<noteq> 0"
  shows "pow2 (binade x) \<le> \<bar>x\<bar>" "\<bar>x\<bar> < pow2 (binade x + 1)"
proof -
  have pos: "0 < \<bar>x\<bar>" using assms by simp
  have "of_int (binade x) \<le> log 2 \<bar>x\<bar>"
    by (simp add: binade_def)
  then show "pow2 (binade x) \<le> \<bar>x\<bar>"
    using pos by (simp add: pow2_def le_log_iff)
  have "log 2 \<bar>x\<bar> < of_int (binade x + 1)"
    by (simp add: binade_def)
  then show "\<bar>x\<bar> < pow2 (binade x + 1)"
    using pos by (simp add: pow2_def log_less_iff)
qed

lemma binade_eqI:
  assumes "pow2 e \<le> \<bar>x\<bar>" and "\<bar>x\<bar> < pow2 (e + 1)"
  shows "binade x = e"
proof -
  have pos: "0 < \<bar>x\<bar>"
    using assms(1) pow2_pos [of e] by linarith
  have "of_int e \<le> log 2 \<bar>x\<bar>"
    using assms(1) pos by (simp add: pow2_def le_log_iff)
  moreover have "log 2 \<bar>x\<bar> < of_int e + 1"
    using assms(2) pos by (simp add: pow2_def log_less_iff)
  ultimately show ?thesis
    unfolding binade_def by (simp add: floor_eq_iff)
qed



lemma rne_bounds: "\<lfloor>x\<rfloor> \<le> rne x" "rne x \<le> \<lfloor>x\<rfloor> + 1"
  by (simp_all add: rne_def Let_def)

lemma rne_mono:
  assumes "x \<le> y"
  shows "rne x \<le> rne y"
proof (cases "\<lfloor>x\<rfloor> = \<lfloor>y\<rfloor>")
  case True
  then show ?thesis
    using assms by (auto simp add: rne_def Let_def)
next
  case False
  then have "\<lfloor>x\<rfloor> < \<lfloor>y\<rfloor>"
    using assms floor_mono [of x y] by linarith
  then show ?thesis
    using rne_bounds(2) [of x] rne_bounds(1) [of y] by linarith
qed

lemma rne_of_int: "rne (of_int n) = n"
  by (simp add: rne_def)

lemma rne_error: "\<bar>of_int (rne y) - y\<bar> \<le> 1 / 2"
proof -
  have "of_int \<lfloor>y\<rfloor> \<le> y" "y < of_int \<lfloor>y\<rfloor> + 1"
    by linarith+
  then show ?thesis
    by (auto simp add: rne_def Let_def abs_le_iff)
qed

lemma dbl_0: "dbl 0 = 0"
  by (simp add: dbl_def)





lemma dbl_nonneg:
  assumes "0 \<le> x"
  shows "0 \<le> dbl x"
proof -
  have "0 \<le> \<bar>x\<bar> / pow2 (quantum x)"
    using pow2_pos [of "quantum x"] by simp
  then have "0 \<le> rne (\<bar>x\<bar> / pow2 (quantum x))"
    using rne_mono [of 0 "\<bar>x\<bar> / pow2 (quantum x)"] rne_of_int [of 0] by simp
  then show ?thesis
    using assms pow2_pos [of "quantum x"] by (simp add: dbl_def sgn_real_def)
qed


lemma dbl_eval:
  assumes "- 1022 \<le> e" and "pow2 e \<le> \<bar>x\<bar>" and "\<bar>x\<bar> < pow2 (e + 1)"
  shows "dbl x = sgn x * of_int (rne (\<bar>x\<bar> / pow2 (e - 52))) * pow2 (e - 52)"
  using assms(1) by (simp add: dbl_def quantum_def binade_eqI [OF assms(2,3)])

lemma dbl_error:
  assumes "pow2 (- 1022) \<le> \<bar>x\<bar>"
  shows "\<bar>dbl x - x\<bar> \<le> \<bar>x\<bar> / 2 ^ 53"
proof -
  have nz: "x \<noteq> 0"
    using assms pow2_pos [of "- 1022"] by auto
  have "\<bar>x\<bar> < pow2 (binade x + 1)"
    by (rule binade_bounds(2) [OF nz])
  then have "pow2 (- 1022) < pow2 (binade x + 1)"
    using assms by linarith
  then have "- 1022 < binade x + 1"
    by (simp add: pow2_def)
  then have q: "quantum x = binade x - 52"
    by (simp add: quantum_def)
  let ?u = "pow2 (binade x - 52)"
  let ?y = "\<bar>x\<bar> / ?u"
  have u: "0 < ?u" by (rule pow2_pos)
  have "pow2 (52 + (binade x - 52)) = pow2 52 * ?u"
    by (rule pow2_add)
  then have split: "pow2 (binade x) = 2 ^ 52 * ?u"
    by (simp add: pow2_numeral add.commute)
  have lo: "2 ^ 52 * ?u \<le> \<bar>x\<bar>"
    using binade_bounds(1) [OF nz] by (simp only: split)
  have "dbl x - x = sgn x * (of_int (rne ?y) - ?y) * ?u"
    using u by (simp add: dbl_def q algebra_simps sgn_real_def)
  then have "\<bar>dbl x - x\<bar> = \<bar>of_int (rne ?y) - ?y\<bar> * ?u"
    using u nz by (simp add: abs_mult)
  also have "\<dots> \<le> 1 / 2 * ?u"
    using rne_error [of ?y] u by (intro mult_right_mono) simp_all
  also have "\<dots> \<le> \<bar>x\<bar> / 2 ^ 53"
    using lo by simp
  finally show ?thesis .
qed

text \<open>Small whole numbers are doubles.\<close>

lemma dbl_small: "dbl 1 = 1" "dbl 2 = 2" "dbl 3 = 3" "dbl 4 = 4" "dbl 6 = 6"
      apply (subst dbl_eval [where e = 0], simp_all add: pow2_numeral rne_def)
     apply (subst dbl_eval [where e = 1], simp_all add: pow2_numeral rne_def)
    apply (subst dbl_eval [where e = 1], simp_all add: pow2_numeral rne_def)
   apply (subst dbl_eval [where e = 2], simp_all add: pow2_numeral rne_def)
  apply (subst dbl_eval [where e = 2], simp_all add: pow2_numeral rne_def)
  done

subsection \<open>What the flux calculator leaves alone\<close>

lemma setup_fields:
  assumes "stepSetup g' = stepSetup g"
  shows "LatFlowExpr g' = LatFlowExpr g" "DeepFlowExpr g' = DeepFlowExpr g" "A g' = A g"
    "FracPerv g' = FracPerv g" "Area g' = Area g" "Infil g' = Infil g" "Tstep g' = Tstep g"
    "MaxEvap g' = MaxEvap g" "AvailEvap g' = AvailEvap g" "TotalDepth g' = TotalDepth g"
    "Hstar g' = Hstar g" "Hsw g' = Hsw g" "MaxUpperPerc g' = MaxUpperPerc g"
    "MaxGWFlowPos g' = MaxGWFlowPos g" "MaxGWFlowNeg g' = MaxGWFlowNeg g"
  using assms by (simp_all add: stepSetup_def)

lemma getEvapRates_setup: "stepSetup (getEvapRates ext sp g th ud) = stepSetup g"
  by (simp add: getEvapRates_def stepSetup_def Let_def)

lemma getUpperPerc_setup: "stepSetup (snd (getUpperPerc g th ud)) = stepSetup g"
  by (simp add: getUpperPerc_def stepSetup_def Let_def)

lemma getEvapRates_keeps:
  "Hgw (getEvapRates ext sp g th ud) = Hgw g"
  "Theta (getEvapRates ext sp g th ud) = Theta g"
  "HydCon (getEvapRates ext sp g th ud) = HydCon g"
  "UpperPerc (getEvapRates ext sp g th ud) = UpperPerc g"
  "LowerLoss (getEvapRates ext sp g th ud) = LowerLoss g"
  "GWFlow (getEvapRates ext sp g th ud) = GWFlow g"
  by (simp_all add: getEvapRates_def Let_def)

lemma getUpperPerc_keeps:
  "Hgw (snd (getUpperPerc g th ud)) = Hgw g"
  "Theta (snd (getUpperPerc g th ud)) = Theta g"
  "UpperEvap (snd (getUpperPerc g th ud)) = UpperEvap g"
  "LowerEvap (snd (getUpperPerc g th ud)) = LowerEvap g"
  "UpperPerc (snd (getUpperPerc g th ud)) = UpperPerc g"
  "LowerLoss (snd (getUpperPerc g th ud)) = LowerLoss g"
  "GWFlow (snd (getUpperPerc g th ud)) = GWFlow g"
  by (simp_all add: getUpperPerc_def Let_def)

lemmas sub_setup = setup_fields [OF getEvapRates_setup] setup_fields [OF getUpperPerc_setup]

lemma getFluxes_setup: "stepSetup (getFluxes ext sp gw gwtr th ld) = stepSetup gwtr"
proof -
  have upd: "stepSetup (g\<lparr>Hgw := v\<rparr>) = stepSetup g"
            "stepSetup (g\<lparr>Theta := v\<rparr>) = stepSetup g"
            "stepSetup (g\<lparr>UpperPerc := v\<rparr>) = stepSetup g"
            "stepSetup (g\<lparr>LowerLoss := v\<rparr>) = stepSetup g"
            "stepSetup (g\<lparr>GWFlow := v\<rparr>) = stepSetup g" for g v
    by (simp_all add: stepSetup_def)
  show ?thesis
    by (simp add: getFluxes_def Let_def split_def upd getEvapRates_setup getUpperPerc_setup
        split: option.split)
qed

lemma getDxDt_setup: "stepSetup (snd (getDxDt ext sp gw gwtr t x)) = stepSetup gwtr"
  by (simp add: getDxDt_def Let_def getFluxes_setup)

text \<open>
  Whatever the solver does, it reaches the shared structure through the derivative
  function only: induction on the solver tree.
\<close>

lemma odesolve_run_setup:
  assumes "\<And>g t x. stepSetup (snd (derivs g t x)) = stepSetup g"
  shows "stepSetup (snd (odesolve_run derivs s gwtr)) = stepSetup gwtr"
proof (induction s arbitrary: gwtr)
  case (Done x)
  show ?case by simp
next
  case (Eval t x k)
  have "stepSetup (snd (odesolve_run derivs (k (fst (derivs gwtr t x))) (snd (derivs gwtr t x))))
        = stepSetup (snd (derivs gwtr t x))"
    by (rule Eval.IH) (rule rangeI)
  then show ?case
    by (simp add: split_def assms)
qed

lemma integrated_setup:
  "stepSetup (snd (integrated ext sp j gw evap infil tStep)) =
   stepSetup (stepContext ext sp j gw evap infil tStep)"
  unfolding integrated_def by (rule odesolve_run_setup) (rule getDxDt_setup)

lemmas integrated_fields = setup_fields [OF integrated_setup]

lemma stepContext_fields:
  "LatFlowExpr (stepContext ext sp j gw evap infil tStep) = gwLatFlowExpr (Subcatch sp j)"
  "DeepFlowExpr (stepContext ext sp j gw evap infil tStep) = gwDeepFlowExpr (Subcatch sp j)"
  "A (stepContext ext sp j gw evap infil tStep) = Aquifer sp (aquifer gw)"
  "FracPerv (stepContext ext sp j gw evap infil tStep) = subcatch_getFracPerv ext j"
  "Area (stepContext ext sp j gw evap infil tStep) = area (Subcatch sp j)"
  "Infil (stepContext ext sp j gw evap infil tStep) = infil / area (Subcatch sp j) / tStep"
  "Tstep (stepContext ext sp j gw evap infil tStep) = tStep"
  "TotalDepth (stepContext ext sp j gw evap infil tStep) = surfElev gw - bottomElev gw"
  "Hstar (stepContext ext sp j gw evap infil tStep) =
     (if nodeElev gw \<noteq> MISSING ext then nodeElev gw - bottomElev gw
      else invertElev (Node sp (node gw)) - bottomElev gw)"
  "MaxGWFlowPos (stepContext ext sp j gw evap infil tStep) =
     lowerDepth gw * porosity (Aquifer sp (aquifer gw)) / tStep"
  by (simp_all add: stepContext_def)

subsection \<open>The fluxes at a state\<close>

lemma getFluxes_Hgw:
  "Hgw (getFluxes ext sp gw gwtr th ld) = MIN_c (MAX_c ld 0) (TotalDepth gwtr)"
  by (simp add: getFluxes_def Let_def split_def getEvapRates_keeps getUpperPerc_keeps
      split: option.split)


lemma getFluxes_UpperEvap:
  "UpperEvap (getFluxes ext sp gw gwtr th ld) =
     UpperEvap (getEvapRates ext sp (gwtr\<lparr>Hgw := MIN_c (MAX_c ld 0) (TotalDepth gwtr), Theta := th\<rparr>)
       th (dbl (TotalDepth gwtr - MIN_c (MAX_c ld 0) (TotalDepth gwtr))))"
  by (simp add: getFluxes_def Let_def split_def getEvapRates_keeps getUpperPerc_keeps
      split: option.split)

lemma getFluxes_LowerEvap:
  "LowerEvap (getFluxes ext sp gw gwtr th ld) =
     LowerEvap (getEvapRates ext sp (gwtr\<lparr>Hgw := MIN_c (MAX_c ld 0) (TotalDepth gwtr), Theta := th\<rparr>)
       th (dbl (TotalDepth gwtr - MIN_c (MAX_c ld 0) (TotalDepth gwtr))))"
  by (simp add: getFluxes_def Let_def split_def getEvapRates_keeps getUpperPerc_keeps
      split: option.split)

lemma getFluxes_LowerLoss_default:
  "DeepFlowExpr gwtr = None \<Longrightarrow>
   LowerLoss (getFluxes ext sp gw gwtr th ld) =
     MIN_c (dbl (dbl (lowerLossCoeff (A gwtr) * MIN_c (MAX_c ld 0) (TotalDepth gwtr)) /
                 TotalDepth gwtr))
       (dbl (MIN_c (MAX_c ld 0) (TotalDepth gwtr) / Tstep gwtr))"
  by (simp add: getFluxes_def Let_def split_def sub_setup split: option.split)

text \<open>
  With a deep flow expression: the shared structure the expression is evaluated
  against has the setup of the step and holds the clamped depth and the moisture of
  the state at hand.
\<close>

lemma getFluxes_LowerLoss_expr:
  assumes "DeepFlowExpr gwtr = Some e"
  shows "\<exists>g. stepSetup g = stepSetup gwtr \<and> Hgw g = MIN_c (MAX_c ld 0) (TotalDepth gwtr) \<and>
             Theta g = th \<and>
             LowerLoss (getFluxes ext sp gw gwtr th ld) =
               MIN_c (dbl (mathexpr_eval ext e (getVariableValue ext g) / UCF ext RAINFALL))
                 (dbl (MIN_c (MAX_c ld 0) (TotalDepth gwtr) / Tstep gwtr))"
proof -
  define d where "d = MIN_c (MAX_c ld 0) (TotalDepth gwtr)"
  define g0 where "g0 = getEvapRates ext sp (gwtr\<lparr>Hgw := d, Theta := th\<rparr>) th (dbl (TotalDepth gwtr - d))"
  define g where
    "g = (snd (getUpperPerc g0 th (dbl (TotalDepth gwtr - d))))
           \<lparr>UpperPerc := MIN_c (fst (getUpperPerc g0 th (dbl (TotalDepth gwtr - d)))) (MaxUpperPerc gwtr)\<rparr>"
  have s0: "stepSetup g0 = stepSetup gwtr"
    by (simp add: g0_def getEvapRates_setup) (simp add: stepSetup_def)
  have s: "stepSetup g = stepSetup gwtr"
  proof -
    have "stepSetup g = stepSetup (snd (getUpperPerc g0 th (dbl (TotalDepth gwtr - d))))"
      by (simp add: g_def stepSetup_def)
    then show ?thesis
      by (simp add: getUpperPerc_setup s0)
  qed
  have h: "Hgw g = d" "Theta g = th"
    by (simp_all add: g_def g0_def getUpperPerc_keeps getEvapRates_keeps)
  have "LowerLoss (getFluxes ext sp gw gwtr th ld) =
          MIN_c (dbl (mathexpr_eval ext e (getVariableValue ext g) / UCF ext RAINFALL))
            (dbl (d / Tstep gwtr))"
    using assms
    by (simp add: getFluxes_def Let_def split_def sub_setup g_def g0_def d_def
        split: option.split)
  with s h show ?thesis
    unfolding d_def by blast
qed

lemma getFluxes_GWFlow_builtin:
  assumes "LatFlowExpr gwtr = None"
  shows "GWFlow (getFluxes ext sp gw gwtr th ld) =
     (if getGWFlow ext gw gwtr (MIN_c (MAX_c ld 0) (TotalDepth gwtr)) \<ge> 0
      then MIN_c (getGWFlow ext gw gwtr (MIN_c (MAX_c ld 0) (TotalDepth gwtr))) (MaxGWFlowPos gwtr)
      else MAX_c (getGWFlow ext gw gwtr (MIN_c (MAX_c ld 0) (TotalDepth gwtr))) (MaxGWFlowNeg gwtr))"
proof -
  define F where "F hs hw l = getGWFlow ext gw (gwtr\<lparr>Hstar := hs, Hsw := hw\<rparr>) l" for hs hw l
  have flow: "getGWFlow ext gw g l = F (Hstar g) (Hsw g) l" for g l
    by (simp add: F_def getGWFlow_def)
  show ?thesis
    using assms
    by (simp add: getFluxes_def Let_def split_def sub_setup flow split: option.split)
qed

subsection \<open>A completed step\<close>

lemma driver_completed:
  assumes "groundwater (Subcatch sp j) = Some gw"
      and "subcatch_getFracPerv ext j > 0"
      and "surfElev gw - bottomElev gw > 0"
  shows "gwater_getGroundwater ext sp j evap infil tStep =
           saveStateValues ext sp j gw (snd (integrated ext sp j gw evap infil tStep))
             (keepWithinBounds (snd (integrated ext sp j gw evap infil tStep))
                (fst (integrated ext sp j gw evap infil tStep)))
             (infil / area (Subcatch sp j) / tStep) tStep"
  using assms
  by (simp add: gwater_getGroundwater_def stepContext_def integrated_def
      Let_def split_def)

lemma saveStateValues_shared:
  "GwaterShared (saveStateValues ext sp j gw gwtr x infil tStep) =
     getFluxes ext sp (gw\<lparr>theta := fst x, lowerDepth := snd x\<rparr>) gwtr (fst x) (snd x)"
  by (simp add: saveStateValues_def Let_def updateMassBal_def massbal_updateGwaterTotals_def
      stats_updateGwaterStats_def)

lemma saveStateValues_groundwater:
  "groundwater (Subcatch (saveStateValues ext sp j gw gwtr x infil tStep) j) =
     Some (gw\<lparr>theta := fst x, lowerDepth := snd x, oldFlow := newFlow gw,
              newFlow := GWFlow (GwaterShared (saveStateValues ext sp j gw gwtr x infil tStep)),
              evapLoss := UpperEvap (GwaterShared (saveStateValues ext sp j gw gwtr x infil tStep)) +
                          LowerEvap (GwaterShared (saveStateValues ext sp j gw gwtr x infil tStep)),
              maxInfilVol := (TotalDepth gwtr - snd x) * (porosity (A gwtr) - fst x) /
                             FracPerv gwtr\<rparr>)"
proof -
  have "stepSetup (getFluxes ext sp (gw\<lparr>theta := fst x, lowerDepth := snd x\<rparr>) gwtr (fst x) (snd x))
        = stepSetup gwtr"
    by (rule getFluxes_setup)
  then show ?thesis
    by (simp add: saveStateValues_def Let_def updateMassBal_def massbal_updateGwaterTotals_def
        stats_updateGwaterStats_def stepSetup_def)
qed


lemma saveStateValues_setup:
  "stepSetup (GwaterShared (saveStateValues ext sp j gw gwtr x infil tStep)) = stepSetup gwtr"
  by (simp add: saveStateValues_shared getFluxes_setup)

subsection \<open>Snapshot and restore\<close>








subsection \<open>Evaporation\<close>

text \<open>
  Claim C3. When the infiltration rate of the shared structure is positive,
  \<open>getEvapRates\<close> leaves both evaporation rates at exactly 0, whatever the moisture,
  the upper zone depth and the evaporation parameters; so do the flux calculator and
  the derivative function, which call it.
\<close>

theorem getEvapRates_zero_when_infiltrating:
  assumes "Infil gwtr > 0"
  shows "UpperEvap (getEvapRates ext sp gwtr th upperDepth) = 0 \<and>
         LowerEvap (getEvapRates ext sp gwtr th upperDepth) = 0 \<and>
         UpperEvap (getFluxes ext sp gw gwtr th ld) = 0 \<and>
         LowerEvap (getFluxes ext sp gw gwtr th ld) = 0 \<and>
         UpperEvap (snd (getDxDt ext sp gw gwtr t x)) = 0 \<and>
         LowerEvap (snd (getDxDt ext sp gw gwtr t x)) = 0"
proof -
  have evap: "UpperEvap (getEvapRates ext sp g th' ud) = 0 \<and>
              LowerEvap (getEvapRates ext sp g th' ud) = 0" if "Infil g > 0" for g th' ud
    using that by (simp add: getEvapRates_def)
  have fluxes: "UpperEvap (getFluxes ext sp gw gwtr th' ld') = 0 \<and>
                LowerEvap (getFluxes ext sp gw gwtr th' ld') = 0" for th' ld'
    using assms by (simp add: getFluxes_UpperEvap getFluxes_LowerEvap evap)
  show ?thesis
    using assms by (simp add: evap fluxes getDxDt_def Let_def)
qed

theorem getEvapRates_zero_when_infiltrating_witness:
  "Infil (exShared\<lparr>Infil := 1\<rparr>) > 0 \<and>
   UpperEvap (getEvapRates exExtern (exProject exAquifer exStart) (exShared\<lparr>Infil := 1\<rparr>) 0.3 4) = 0 \<and>
   LowerEvap (getEvapRates exExtern (exProject exAquifer exStart) (exShared\<lparr>Infil := 1\<rparr>) 0.3 4) = 0"
proof -
  have h: "Infil (exShared\<lparr>Infil := 1\<rparr>) > 0"
    by simp
  show ?thesis
    using h getEvapRates_zero_when_infiltrating [OF h] by simp
qed

text \<open>
  The two rates when both are computed (no infiltration, no monthly pattern, a moisture
  above the wilting point, a positive evaporation depth), and their computation in
  \<open>evapShared\<close>, operation by operation.
\<close>

lemma getEvapRates_computed:
  assumes "Infil g \<le> 0" and "upperEvapPat (A g) < 0" and "wiltingPoint (A g) < th"
      and "0 < lowerEvapDepth (A g)"
  shows "UpperEvap (getEvapRates ext sp g th ud) =
           MIN_c (dbl (dbl (upperEvapFrac (A g) * 1) * MaxEvap g)) (AvailEvap g)"
        "LowerEvap (getEvapRates ext sp g th ud) =
           MIN_c (dbl (dbl (MIN_c (MAX_c 0 (dbl (dbl (lowerEvapDepth (A g) - ud) /
                                              lowerEvapDepth (A g)))) 1 *
                            dbl (1 - dbl (upperEvapFrac (A g) * 1))) * MaxEvap g))
             (dbl (AvailEvap g -
                   MIN_c (dbl (dbl (upperEvapFrac (A g) * 1) * MaxEvap g)) (AvailEvap g)))"
  using assms by (simp_all add: getEvapRates_def Let_def)

lemma evapShared_fields:
  "Infil evapShared \<le> 0" "upperEvapPat (A evapShared) < 0"
  "wiltingPoint (A evapShared) < 0.25" "0 < lowerEvapDepth (A evapShared)"
  "upperEvapFrac (A evapShared) = 1 / 8" "lowerEvapDepth (A evapShared) = 1"
  "MaxEvap evapShared = 9007199254741004 / 2 ^ 73"
  "AvailEvap evapShared = 7881299347898371 / 2 ^ 73"
  by (simp_all add: evapShared_def exShared_def exAquifer_def)

lemma dbl_evap:
  "dbl (1 / 8 * 1) = 1 / 8"
  "dbl (1 / 8 * (9007199254741004 / 2 ^ 73)) = 2251799813685251 / 2 ^ 74"
  "dbl (1 - 0) = 1"
  "dbl (1 / 1) = 1"
  "dbl (1 - 1 / 8) = 7 / 8"
  "dbl (1 * (7 / 8)) = 7 / 8"
  "dbl (7 / 8 * (9007199254741004 / 2 ^ 73)) = 3940649673949189 / 2 ^ 72"
  "dbl (7881299347898371 / 2 ^ 73 - 2251799813685251 / 2 ^ 74) = 3377699720527873 / 2 ^ 72"
  "dbl (2251799813685251 / 2 ^ 74 + 3377699720527873 / 2 ^ 72) = 1970324836974593 / 2 ^ 71"
          apply (subst dbl_eval [where e = "- 3"], simp_all add: pow2_numeral rne_def)
         apply (subst dbl_eval [where e = "- 23"], simp_all add: pow2_numeral rne_def)
        apply (subst dbl_eval [where e = 0], simp_all add: pow2_numeral rne_def)
       apply (subst dbl_eval [where e = 0], simp_all add: pow2_numeral rne_def)
      apply (subst dbl_eval [where e = "- 1"], simp_all add: pow2_numeral rne_def)
     apply (subst dbl_eval [where e = "- 1"], simp_all add: pow2_numeral rne_def)
    apply (subst dbl_eval [where e = "- 21"], simp_all add: pow2_numeral rne_def)
   apply (subst dbl_eval [where e = "- 21"], simp_all add: pow2_numeral rne_def)
  apply (subst dbl_eval [where e = "- 21"], simp_all add: pow2_numeral rne_def)
  done

lemma min_evap:
  "MIN_c (2251799813685251 / 2 ^ 74) (7881299347898371 / 2 ^ 73) = (2251799813685251 / 2 ^ 74 :: real)"
  "MAX_c 0 1 = (1::real)" "MIN_c 1 1 = (1::real)"
  "MIN_c (3940649673949189 / 2 ^ 72) (3377699720527873 / 2 ^ 72) = (3377699720527873 / 2 ^ 72 :: real)"
  by (simp_all add: MIN_c_def MAX_c_def)

text \<open>
  Claim C10, as stated, fails. In \<open>evapShared\<close> the available evaporation is
  \<open>(7/4 + 3 * 2^-52) * 2^-21\<close>; with a moisture of 0.25 and an upper zone depth of 0,
  \<open>getEvapRates\<close> computes an upper zone rate of \<open>(1/4 + 3/2 * 2^-52) * 2^-21\<close> and caps
  the lower zone rate at the difference of the two rounded to a double,
  \<open>(3/2 + 2 * 2^-52) * 2^-21\<close>, which is \<open>2^-74\<close> more than the exact difference. The two
  rates add up to more than the available evaporation, and so does their sum rounded
  to a double.
\<close>

theorem getEvapRates_exceeds_AvailEvap_counterexample:
  "AvailEvap evapShared \<ge> 0 \<and>
   UpperEvap (getEvapRates exExtern (exProject exAquifer exStart) evapShared 0.25 0) =
     2251799813685251 / 2 ^ 74 \<and>
   LowerEvap (getEvapRates exExtern (exProject exAquifer exStart) evapShared 0.25 0) =
     3377699720527873 / 2 ^ 72 \<and>
   AvailEvap evapShared <
     UpperEvap (getEvapRates exExtern (exProject exAquifer exStart) evapShared 0.25 0) +
     LowerEvap (getEvapRates exExtern (exProject exAquifer exStart) evapShared 0.25 0) \<and>
   AvailEvap evapShared <
     dbl (UpperEvap (getEvapRates exExtern (exProject exAquifer exStart) evapShared 0.25 0) +
          LowerEvap (getEvapRates exExtern (exProject exAquifer exStart) evapShared 0.25 0))"
proof -
  have u: "UpperEvap (getEvapRates exExtern (exProject exAquifer exStart) evapShared 0.25 0) =
             2251799813685251 / 2 ^ 74"
    unfolding getEvapRates_computed(1) [OF evapShared_fields(1-4)] evapShared_fields(5-8)
      dbl_evap min_evap
    by (rule refl)
  have l: "LowerEvap (getEvapRates exExtern (exProject exAquifer exStart) evapShared 0.25 0) =
             3377699720527873 / 2 ^ 72"
    unfolding getEvapRates_computed(2) [OF evapShared_fields(1-4)] evapShared_fields(5-8)
      dbl_evap min_evap
    by (rule refl)
  show ?thesis
    unfolding u l dbl_evap evapShared_fields(8) by simp
qed

text \<open>
  Claim C10, amended. When the available evaporation of the shared structure is not
  negative, the upper zone rate \<open>getEvapRates\<close> computes is at most the available
  evaporation, and the lower zone rate is 0 or at most the difference of the available
  evaporation and the upper zone rate as rounded to a double: the two rates add up to
  no more than the available evaporation plus what the rounding added to that
  difference.
\<close>

theorem getEvapRates_within_rounded_AvailEvap:
  assumes "AvailEvap gwtr \<ge> 0"
  shows "UpperEvap (getEvapRates ext sp gwtr th upperDepth) \<le> AvailEvap gwtr \<and>
         LowerEvap (getEvapRates ext sp gwtr th upperDepth) \<le>
           max 0 (dbl (AvailEvap gwtr - UpperEvap (getEvapRates ext sp gwtr th upperDepth))) \<and>
         UpperEvap (getEvapRates ext sp gwtr th upperDepth) +
         LowerEvap (getEvapRates ext sp gwtr th upperDepth) \<le>
           AvailEvap gwtr +
           max 0 (dbl (AvailEvap gwtr - UpperEvap (getEvapRates ext sp gwtr th upperDepth)) -
                  (AvailEvap gwtr - UpperEvap (getEvapRates ext sp gwtr th upperDepth)))"
proof -
  define u where "u = UpperEvap (getEvapRates ext sp gwtr th upperDepth)"
  define l where "l = LowerEvap (getEvapRates ext sp gwtr th upperDepth)"
  define c where "c = dbl (AvailEvap gwtr - u)"
  have upper: "u \<le> AvailEvap gwtr"
    unfolding u_def using assms by (simp add: getEvapRates_def Let_def MIN_c_def)
  have lower: "l = 0 \<or> l \<le> c"
    unfolding l_def c_def u_def by (simp add: getEvapRates_def Let_def MIN_c_def)
  have "u \<le> AvailEvap gwtr \<and> l \<le> max 0 c \<and>
        u + l \<le> AvailEvap gwtr + max 0 (c - (AvailEvap gwtr - u))"
    using upper lower by (auto simp add: max_def)
  then show ?thesis
    unfolding c_def u_def l_def .
qed

theorem getEvapRates_within_rounded_AvailEvap_witness:
  "AvailEvap (exShared\<lparr>MaxEvap := 2, AvailEvap := 1\<rparr>) \<ge> 0 \<and>
   UpperEvap (getEvapRates exExtern (exProject exAquifer exStart)
                (exShared\<lparr>MaxEvap := 2, AvailEvap := 1\<rparr>) 0.3 1) \<le> 1 \<and>
   UpperEvap (getEvapRates exExtern (exProject exAquifer exStart)
                (exShared\<lparr>MaxEvap := 2, AvailEvap := 1\<rparr>) 0.3 1) +
   LowerEvap (getEvapRates exExtern (exProject exAquifer exStart)
                (exShared\<lparr>MaxEvap := 2, AvailEvap := 1\<rparr>) 0.3 1)
     \<le> AvailEvap (exShared\<lparr>MaxEvap := 2, AvailEvap := 1\<rparr>) +
        max 0 (dbl (AvailEvap (exShared\<lparr>MaxEvap := 2, AvailEvap := 1\<rparr>) -
                    UpperEvap (getEvapRates exExtern (exProject exAquifer exStart)
                                 (exShared\<lparr>MaxEvap := 2, AvailEvap := 1\<rparr>) 0.3 1)) -
               (AvailEvap (exShared\<lparr>MaxEvap := 2, AvailEvap := 1\<rparr>) -
                UpperEvap (getEvapRates exExtern (exProject exAquifer exStart)
                             (exShared\<lparr>MaxEvap := 2, AvailEvap := 1\<rparr>) 0.3 1)))"
proof -
  have h: "AvailEvap (exShared\<lparr>MaxEvap := 2, AvailEvap := 1\<rparr>) \<ge> 0"
    by simp
  show ?thesis
    using h getEvapRates_within_rounded_AvailEvap [OF h] by simp
qed

subsection \<open>Lateral flow\<close>

text \<open>
  Claim C6. In \<open>getGWFlow\<close>, for a lower depth above \<open>Hstar\<close> and a negative
  built-in flow (groundwater term minus surface water term plus interaction term,
  converted), the result is 0 exactly when the coefficient \<open>a3\<close> is not 0; when \<open>a3\<close> is
  0 the negative flow is returned as it is.
\<close>

theorem getGWFlow_negative_clamp:
  assumes "ld > Hstar gwtr" and "builtinFlow ext gw gwtr ld < 0"
  shows "(getGWFlow ext gw gwtr ld = 0 \<longleftrightarrow> a3 gw \<noteq> 0) \<and>
         (a3 gw = 0 \<longrightarrow> getGWFlow ext gw gwtr ld = builtinFlow ext gw gwtr ld)"
  using assms by (auto simp add: getGWFlow_def builtinFlow_def Let_def)

theorem getGWFlow_negative_clamp_witness:
  "(1::real) > Hstar exShared \<and> builtinFlow exExtern (exStart\<lparr>a1 := - 1\<rparr>) exShared 1 < 0 \<and>
   getGWFlow exExtern (exStart\<lparr>a1 := - 1\<rparr>) exShared 1 = - 1 \<and>
   (1::real) > Hstar (exShared\<lparr>Hsw := 1\<rparr>) \<and>
   builtinFlow exExtern (exStart\<lparr>a1 := - 1, a3 := 0.5\<rparr>) (exShared\<lparr>Hsw := 1\<rparr>) 1 < 0 \<and>
   getGWFlow exExtern (exStart\<lparr>a1 := - 1, a3 := 0.5\<rparr>) (exShared\<lparr>Hsw := 1\<rparr>) 1 = 0"
proof -
  have h1: "(1::real) > Hstar exShared"
    by (simp add: exShared_def)
  have h2: "builtinFlow exExtern (exStart\<lparr>a1 := - 1\<rparr>) exShared 1 < 0"
    by (simp add: builtinFlow_def exExtern_def exStart_def exGroundwater_def exShared_def)
  have v: "builtinFlow exExtern (exStart\<lparr>a1 := - 1\<rparr>) exShared 1 = - 1"
    by (simp add: builtinFlow_def exExtern_def exStart_def exGroundwater_def exShared_def)
  have a: "a3 (exStart\<lparr>a1 := - 1\<rparr>) = 0"
    by (simp add: exStart_def exGroundwater_def)
  have h3: "(1::real) > Hstar (exShared\<lparr>Hsw := 1\<rparr>)"
    by (simp add: exShared_def)
  have h4: "builtinFlow exExtern (exStart\<lparr>a1 := - 1, a3 := 0.5\<rparr>) (exShared\<lparr>Hsw := 1\<rparr>) 1 < 0"
    by (simp add: builtinFlow_def exExtern_def exStart_def exGroundwater_def exShared_def)
  have b: "a3 (exStart\<lparr>a1 := - 1, a3 := 0.5\<rparr>) \<noteq> 0"
    by (simp add: exStart_def exGroundwater_def)
  show ?thesis
    using h1 h2 h3 h4 v a b getGWFlow_negative_clamp [OF h1 h2] getGWFlow_negative_clamp [OF h3 h4]
    by simp
qed

subsection \<open>Stored volume\<close>







subsection \<open>Steps that are skipped\<close>

text \<open>
  Claim C9. When the subcatchment has no groundwater object, or its pervious
  fraction is not positive, or the surface elevation of its groundwater object does
  not exceed the bottom elevation, \<open>gwater_getGroundwater\<close> returns with every
  subcatchment, hence every groundwater object, as it was, and with nothing added to
  the mass balance log or to the statistics log.
\<close>

theorem gwater_getGroundwater_early_return:
  assumes "groundwater (Subcatch sp j) = None \<or> subcatch_getFracPerv ext j \<le> 0 \<or>
           (\<exists>gw. groundwater (Subcatch sp j) = Some gw \<and> surfElev gw - bottomElev gw \<le> 0)"
  shows "Subcatch (gwater_getGroundwater ext sp j evap infil tStep) = Subcatch sp \<and>
         GwaterTotals (gwater_getGroundwater ext sp j evap infil tStep) = GwaterTotals sp \<and>
         GwaterStats (gwater_getGroundwater ext sp j evap infil tStep) = GwaterStats sp"
  using assms
  by (auto simp add: gwater_getGroundwater_def Let_def split: option.split)

theorem gwater_getGroundwater_early_return_witness:
  "groundwater (Subcatch ((exProject exAquifer exStart)
     \<lparr>Subcatch := (\<lambda>i. \<lparr>groundwater = None, gwLatFlowExpr = None, gwDeepFlowExpr = None,
                         area = 1\<rparr>)\<rparr>) 0) = None \<and>
   Subcatch (gwater_getGroundwater exExtern ((exProject exAquifer exStart)
     \<lparr>Subcatch := (\<lambda>i. \<lparr>groundwater = None, gwLatFlowExpr = None, gwDeepFlowExpr = None,
                         area = 1\<rparr>)\<rparr>) 0 0 1 1) =
     (\<lambda>i. \<lparr>groundwater = None, gwLatFlowExpr = None, gwDeepFlowExpr = None, area = 1\<rparr>) \<and>
   subcatch_getFracPerv (exExtern\<lparr>subcatch_getFracPerv := (\<lambda>j. 0)\<rparr>) 0 \<le> 0 \<and>
   Subcatch (gwater_getGroundwater (exExtern\<lparr>subcatch_getFracPerv := (\<lambda>j. 0)\<rparr>)
               (exProject exAquifer exStart) 0 0 1 1) = Subcatch (exProject exAquifer exStart) \<and>
   GwaterTotals (gwater_getGroundwater (exExtern\<lparr>subcatch_getFracPerv := (\<lambda>j. 0)\<rparr>)
               (exProject exAquifer exStart) 0 0 1 1) = [] \<and>
   GwaterStats (gwater_getGroundwater (exExtern\<lparr>subcatch_getFracPerv := (\<lambda>j. 0)\<rparr>)
               (exProject exAquifer exStart) 0 0 1 1) = [] \<and>
   groundwater (Subcatch (exProject exAquifer (exStart\<lparr>surfElev := 0\<rparr>)) 0) =
     Some (exStart\<lparr>surfElev := 0\<rparr>) \<and>
   surfElev (exStart\<lparr>surfElev := 0\<rparr>) - bottomElev (exStart\<lparr>surfElev := 0\<rparr>) \<le> 0 \<and>
   Subcatch (gwater_getGroundwater exExtern (exProject exAquifer (exStart\<lparr>surfElev := 0\<rparr>)) 0 0 1 1) =
     Subcatch (exProject exAquifer (exStart\<lparr>surfElev := 0\<rparr>))"
proof -
  have h1: "groundwater (Subcatch ((exProject exAquifer exStart)
     \<lparr>Subcatch := (\<lambda>i. \<lparr>groundwater = None, gwLatFlowExpr = None, gwDeepFlowExpr = None,
                         area = 1\<rparr>)\<rparr>) 0) = None"
    by simp
  have h2: "subcatch_getFracPerv (exExtern\<lparr>subcatch_getFracPerv := (\<lambda>j. 0)\<rparr>) 0 \<le> 0"
    by simp
  have h3: "groundwater (Subcatch (exProject exAquifer (exStart\<lparr>surfElev := 0\<rparr>)) 0) =
              Some (exStart\<lparr>surfElev := 0\<rparr>)"
           "surfElev (exStart\<lparr>surfElev := 0\<rparr>) - bottomElev (exStart\<lparr>surfElev := 0\<rparr>) \<le> 0"
    by (simp_all add: exProject_def exStart_def)
  have logs: "GwaterTotals (exProject exAquifer exStart) = []"
             "GwaterStats (exProject exAquifer exStart) = []"
    by (simp_all add: exProject_def)
  show ?thesis
    using h1 h2 h3 logs
      gwater_getGroundwater_early_return [of "(exProject exAquifer exStart)
        \<lparr>Subcatch := (\<lambda>i. \<lparr>groundwater = None, gwLatFlowExpr = None, gwDeepFlowExpr = None,
                            area = 1\<rparr>)\<rparr>" 0 exExtern 0 1 1]
      gwater_getGroundwater_early_return [of "exProject exAquifer exStart" 0
        "exExtern\<lparr>subcatch_getFracPerv := (\<lambda>j. 0)\<rparr>" 0 1 1]
      gwater_getGroundwater_early_return [of "exProject exAquifer (exStart\<lparr>surfElev := 0\<rparr>)" 0
        exExtern 0 1 1]
    by simp
qed

subsection \<open>Mass balance of a completed step\<close>








subsection \<open>Deep loss\<close>

text \<open>The deep loss rate in \<open>lossShared\<close> at a lower depth of 57/16 ft, operation by operation.\<close>

lemma lossShared_fields:
  "DeepFlowExpr lossShared = None" "lowerLossCoeff (A lossShared) = 1 / 512"
  "TotalDepth lossShared = 4" "Tstep lossShared = 3600"
  by (simp_all add: lossShared_def exShared_def)

lemma dbl_loss:
  "dbl (1 / 512 * (57 / 16)) = 57 / 8192"
  "dbl (57 / 8192 / 4) = 57 / 32768"
  "dbl (57 / 16 / 3600) = 4563647622402103 / 2 ^ 62"
  "dbl (4563647622402103 / 2 ^ 62 * 3600) = 8022036836253697 / 2 ^ 51"
     apply (subst dbl_eval [where e = "- 8"], simp_all add: pow2_numeral rne_def)
    apply (subst dbl_eval [where e = "- 10"], simp_all add: pow2_numeral rne_def)
   apply (subst dbl_eval [where e = "- 10"], simp_all add: pow2_numeral rne_def)
  apply (subst dbl_eval [where e = 1], simp_all add: pow2_numeral rne_def)
  done

lemma min_loss:
  "MIN_c (MAX_c (57 / 16) 0) 4 = (57 / 16 :: real)"
  "MIN_c (57 / 32768) (4563647622402103 / 2 ^ 62) = (4563647622402103 / 2 ^ 62 :: real)"
  by (simp_all add: MIN_c_def MAX_c_def)

text \<open>
  Claim C7, as stated, fails. In \<open>lossShared\<close> (total depth 4 ft, time step 3600 s, no
  deep flow expression) at a lower depth of 57/16 = 3.5625 ft the loss by the
  coefficient, 57/32768, exceeds the cap, so the deep loss rate is the cap: the
  quotient 3.5625 / 3600 rounded to a double, \<open>4563647622402103 / 2^62\<close>. That double
  is more than the exact quotient: over the time step the rate drains more than
  3.5625 ft, and the product rounded to a double, 3.5625000000000004, is more as well.
\<close>

theorem getFluxes_deep_loss_drain_counterexample:
  "0 < Tstep lossShared \<and>
   MIN_c (MAX_c (57 / 16) 0) (TotalDepth lossShared) = 57 / 16 \<and>
   LowerLoss (getFluxes exExtern (exProject exAquifer exStart) exStart lossShared 0.25 (57 / 16)) =
     4563647622402103 / 2 ^ 62 \<and>
   57 / 16 <
     LowerLoss (getFluxes exExtern (exProject exAquifer exStart) exStart lossShared 0.25 (57 / 16)) *
     Tstep lossShared \<and>
   57 / 16 <
     dbl (LowerLoss (getFluxes exExtern (exProject exAquifer exStart) exStart lossShared 0.25
                       (57 / 16)) *
          Tstep lossShared)"
proof -
  have v: "LowerLoss (getFluxes exExtern (exProject exAquifer exStart) exStart lossShared 0.25
                        (57 / 16)) = 4563647622402103 / 2 ^ 62"
    unfolding getFluxes_LowerLoss_default [OF lossShared_fields(1)] lossShared_fields min_loss
      dbl_loss
    by (rule refl)
  show ?thesis
    unfolding v lossShared_fields min_loss dbl_loss by simp
qed

text \<open>
  Claim C7, amended. In the flux calculator, with the lower depth first clamped to
  [0, total depth], the deep loss rate without a deep flow expression is the lesser of
  lowerLossCoeff * depth / total depth and depth / Tstep; with a deep flow
  expression it is the lesser of the converted value of the expression and
  depth / Tstep, every product and quotient rounded to a double. So it is at most
  the double quotient depth / Tstep in both cases, and over a positive time step it
  drains no more than that quotient times the step: no more than the depth of the
  lower zone and one part in \<open>2^53\<close> of it, when the magnitude of the quotient lies
  between \<open>2^-1022\<close> and \<open>2^1023\<close>, where the doubles are normal and finite.
\<close>

theorem getFluxes_deep_loss_rounded:
  "let d = MIN_c (MAX_c ld 0) (TotalDepth gwtr);
       loss = LowerLoss (getFluxes ext sp gw gwtr th ld)
   in (DeepFlowExpr gwtr = None \<longrightarrow>
         loss = MIN_c (dbl (dbl (lowerLossCoeff (A gwtr) * d) / TotalDepth gwtr))
                  (dbl (d / Tstep gwtr))) \<and>
      (\<forall>e. DeepFlowExpr gwtr = Some e \<longrightarrow>
         (\<exists>g. stepSetup g = stepSetup gwtr \<and> Hgw g = d \<and> Theta g = th \<and>
              loss = MIN_c (dbl (mathexpr_eval ext e (getVariableValue ext g) / UCF ext RAINFALL))
                       (dbl (d / Tstep gwtr)))) \<and>
      loss \<le> dbl (d / Tstep gwtr) \<and>
      (0 < Tstep gwtr \<longrightarrow> loss * Tstep gwtr \<le> dbl (d / Tstep gwtr) * Tstep gwtr) \<and>
      (0 < Tstep gwtr \<and> pow2 (- 1022) \<le> \<bar>d / Tstep gwtr\<bar> \<and>
       \<bar>d / Tstep gwtr\<bar> \<le> pow2 1023 \<longrightarrow>
         loss * Tstep gwtr \<le> d + \<bar>d\<bar> / 2 ^ 53)"
proof -
  define d where "d = MIN_c (MAX_c ld 0) (TotalDepth gwtr)"
  define loss where "loss = LowerLoss (getFluxes ext sp gw gwtr th ld)"
  have default: "loss = MIN_c (dbl (dbl (lowerLossCoeff (A gwtr) * d) / TotalDepth gwtr))
                          (dbl (d / Tstep gwtr))"
    if "DeepFlowExpr gwtr = None"
    unfolding loss_def d_def by (rule getFluxes_LowerLoss_default [OF that])
  have expr: "\<exists>g. stepSetup g = stepSetup gwtr \<and> Hgw g = d \<and> Theta g = th \<and>
                loss = MIN_c (dbl (mathexpr_eval ext e (getVariableValue ext g) / UCF ext RAINFALL))
                         (dbl (d / Tstep gwtr))"
    if "DeepFlowExpr gwtr = Some e" for e
    unfolding loss_def d_def by (rule getFluxes_LowerLoss_expr [OF that])
  have cap: "loss \<le> dbl (d / Tstep gwtr)"
  proof (cases "DeepFlowExpr gwtr")
    case None
    then show ?thesis
      by (simp add: default MIN_c_min)
  next
    case (Some e)
    from expr [OF Some] obtain g where
      "loss = MIN_c (dbl (mathexpr_eval ext e (getVariableValue ext g) / UCF ext RAINFALL))
                (dbl (d / Tstep gwtr))"
      by blast
    then show ?thesis
      by (simp add: MIN_c_min)
  qed
  have step: "loss * Tstep gwtr \<le> dbl (d / Tstep gwtr) * Tstep gwtr" if "0 < Tstep gwtr"
    using cap that by (simp add: mult_right_mono)
  have drain: "loss * Tstep gwtr \<le> d + \<bar>d\<bar> / 2 ^ 53"
    if "0 < Tstep gwtr" "pow2 (- 1022) \<le> \<bar>d / Tstep gwtr\<bar>"
  proof -
    have "dbl (d / Tstep gwtr) \<le> d / Tstep gwtr + \<bar>d / Tstep gwtr\<bar> / 2 ^ 53"
      using dbl_error [OF that(2)] by linarith
    then have "dbl (d / Tstep gwtr) * Tstep gwtr \<le>
               (d / Tstep gwtr + \<bar>d / Tstep gwtr\<bar> / 2 ^ 53) * Tstep gwtr"
      using that(1) by (simp add: mult_right_mono)
    also have "\<dots> = d + \<bar>d\<bar> / 2 ^ 53"
      using that(1) by (simp add: algebra_simps abs_divide)
    finally show ?thesis
      using step [OF that(1)] by linarith
  qed
  show ?thesis
    using default expr cap step drain
    unfolding Let_def d_def [symmetric] loss_def [symmetric] by blast
qed

theorem getFluxes_deep_loss_rounded_witness:
  "DeepFlowExpr (lossShared\<lparr>Tstep := 1\<rparr>) = None \<and>
   0 < Tstep (lossShared\<lparr>Tstep := 1\<rparr>) \<and>
   LowerLoss (getFluxes exExtern (exProject exAquifer exStart) exStart
                (lossShared\<lparr>Tstep := 1\<rparr>) 0.25 3) = 3 / 2048 \<and>
   pow2 (- 1022) \<le> \<bar>(3::real) / 1\<bar> \<and> \<bar>(3::real) / 1\<bar> \<le> pow2 1023 \<and>
   LowerLoss (getFluxes exExtern (exProject exAquifer exStart) exStart
                (lossShared\<lparr>Tstep := 1\<rparr>) 0.25 3) * 1 \<le> 3 + \<bar>3\<bar> / 2 ^ 53 \<and>
   DeepFlowExpr (lossShared\<lparr>Tstep := 1, DeepFlowExpr := Some 0\<rparr>) = Some 0 \<and>
   LowerLoss (getFluxes exExtern (exProject exAquifer exStart) exStart
                (lossShared\<lparr>Tstep := 1, DeepFlowExpr := Some 0\<rparr>) 0.25 3) = 1 / 2"
proof -
  let ?g1 = "lossShared\<lparr>Tstep := 1\<rparr>"
  let ?g2 = "lossShared\<lparr>Tstep := 1, DeepFlowExpr := Some 0\<rparr>"
  have h: "DeepFlowExpr ?g1 = None" "0 < Tstep ?g1" "DeepFlowExpr ?g2 = Some 0"
    by (simp_all add: lossShared_def exShared_def)
  have t: "TotalDepth ?g1 = 4" "TotalDepth ?g2 = 4" "Tstep ?g1 = 1" "Tstep ?g2 = 1"
    "lowerLossCoeff (A ?g1) = 1 / 512"
    by (simp_all add: lossShared_def exShared_def)
  have d: "MIN_c (MAX_c 3 0) 4 = 3"
    by (simp add: MIN_c_def MAX_c_def)
  have r: "dbl (3 / 512) = 3 / 512" "dbl (3 / 2048) = 3 / 2048" "dbl (1 / 2) = 1 / 2"
      apply (subst dbl_eval [where e = "- 8"], simp_all add: pow2_numeral rne_def)
     apply (subst dbl_eval [where e = "- 10"], simp_all add: pow2_numeral rne_def)
    apply (subst dbl_eval [where e = "- 1"], simp_all add: pow2_numeral rne_def)
    done
  have "LowerLoss (getFluxes exExtern (exProject exAquifer exStart) exStart ?g1 0.25 3) =
          MIN_c (3 / 2048) 3"
    using h getFluxes_deep_loss_rounded [of 3 ?g1 exExtern "exProject exAquifer exStart" exStart "0.25"]
    by (simp add: Let_def d t r dbl_small lossShared_fields(2))
  then have v1: "LowerLoss (getFluxes exExtern (exProject exAquifer exStart) exStart ?g1 0.25 3) =
                   3 / 2048"
    by (simp add: MIN_c_def)
  have n: "pow2 (- 1022) \<le> \<bar>(3::real) / 1\<bar>" "\<bar>(3::real) / 1\<bar> \<le> pow2 1023"
    by (simp_all add: pow2_numeral)
  note drain = getFluxes_deep_loss_rounded [of 3 ?g1 exExtern "exProject exAquifer exStart"
      exStart "0.25", unfolded Let_def t d, THEN conjunct2, THEN conjunct2, THEN conjunct2,
      THEN conjunct2]
  have v3: "LowerLoss (getFluxes exExtern (exProject exAquifer exStart) exStart ?g1 0.25 3) * 1 \<le>
              3 + \<bar>3\<bar> / 2 ^ 53"
    using drain n by simp
  have e: "mathexpr_eval exExtern 0 (getVariableValue exExtern g) / UCF exExtern RAINFALL =
             2 * Theta g" for g
    by (simp add: exExtern_def getVariableValue_def gwvTHETA_def gwvHGW_def gwvHSW_def gwvHCB_def
        gwvHGS_def gwvKS_def gwvK_def)
  note x = getFluxes_deep_loss_rounded [of 3 ?g2 exExtern "exProject exAquifer exStart" exStart
      "0.25", unfolded Let_def, THEN conjunct2, THEN conjunct1, rule_format, OF h(3),
      unfolded t d e]
  then have v2: "LowerLoss (getFluxes exExtern (exProject exAquifer exStart) exStart ?g2 0.25 3) =
                   1 / 2"
  proof (elim exE conjE)
    fix g
    assume a: "Theta g = 0.25"
      and b: "LowerLoss (getFluxes exExtern (exProject exAquifer exStart) exStart ?g2 0.25 3) =
                MIN_c (dbl (2 * Theta g)) (dbl (3 / 1))"
    show ?thesis
      unfolding b a by (simp add: r dbl_small MIN_c_def)
  qed
  show ?thesis
    using h v1 n v3 v2 by (intro conjI)
qed

subsection \<open>The state a completed step commits\<close>

lemma committed_state:
  assumes "groundwater (Subcatch sp j) = Some gw"
      and "subcatch_getFracPerv ext j > 0"
      and "surfElev gw - bottomElev gw > 0"
  shows "map_option theta (groundwater (Subcatch (gwater_getGroundwater ext sp j evap infil tStep) j)) =
           Some (fst (keepWithinBounds (snd (integrated ext sp j gw evap infil tStep))
                        (fst (integrated ext sp j gw evap infil tStep))))"
    and "map_option lowerDepth
           (groundwater (Subcatch (gwater_getGroundwater ext sp j evap infil tStep) j)) =
           Some (snd (keepWithinBounds (snd (integrated ext sp j gw evap infil tStep))
                        (fst (integrated ext sp j gw evap infil tStep))))"
    and "map_option newFlow
           (groundwater (Subcatch (gwater_getGroundwater ext sp j evap infil tStep) j)) =
           Some (GWFlow (GwaterShared (gwater_getGroundwater ext sp j evap infil tStep)))"
  by (simp_all add: driver_completed [OF assms] saveStateValues_groundwater)

lemma committed_shared:
  assumes "groundwater (Subcatch sp j) = Some gw"
      and "subcatch_getFracPerv ext j > 0"
      and "surfElev gw - bottomElev gw > 0"
  shows "stepSetup (GwaterShared (gwater_getGroundwater ext sp j evap infil tStep)) =
           stepSetup (stepContext ext sp j gw evap infil tStep)"
    and "Hgw (GwaterShared (gwater_getGroundwater ext sp j evap infil tStep)) =
           MIN_c (MAX_c (snd (keepWithinBounds (snd (integrated ext sp j gw evap infil tStep))
                                (fst (integrated ext sp j gw evap infil tStep)))) 0)
             (surfElev gw - bottomElev gw)"
proof -
  show "stepSetup (GwaterShared (gwater_getGroundwater ext sp j evap infil tStep)) =
          stepSetup (stepContext ext sp j gw evap infil tStep)"
    by (simp add: driver_completed [OF assms] saveStateValues_setup integrated_setup)
  show "Hgw (GwaterShared (gwater_getGroundwater ext sp j evap infil tStep)) =
          MIN_c (MAX_c (snd (keepWithinBounds (snd (integrated ext sp j gw evap infil tStep))
                               (fst (integrated ext sp j gw evap infil tStep)))) 0)
            (surfElev gw - bottomElev gw)"
    by (simp add: driver_completed [OF assms] saveStateValues_shared getFluxes_Hgw
        integrated_fields stepContext_fields)
qed

text \<open>
  The bounds the block "keep state variables within allowable bounds" does establish:
  the upper ones always, the lower ones when the tolerance fits between the wilting
  point and the porosity, and between 0 and the total depth.
\<close>

lemma keepWithinBounds_upper:
  "fst (keepWithinBounds g x) < porosity (A g)"
  "snd (keepWithinBounds g x) < TotalDepth g"
  by (simp_all add: keepWithinBounds_def Let_def MAX_c_def XTOL_def)

lemma keepWithinBounds_lower:
  "wiltingPoint (A g) \<le> porosity (A g) - XTOL \<Longrightarrow> wiltingPoint (A g) \<le> fst (keepWithinBounds g x)"
  "XTOL \<le> TotalDepth g \<Longrightarrow> 0 \<le> snd (keepWithinBounds g x)"
  by (simp_all add: keepWithinBounds_def Let_def MAX_c_def)

lemma committed_bounds:
  assumes "groundwater (Subcatch sp j) = Some gw"
      and "subcatch_getFracPerv ext j > 0"
      and "surfElev gw - bottomElev gw > 0"
  shows "\<exists>gw'. groundwater (Subcatch (gwater_getGroundwater ext sp j evap infil tStep) j) = Some gw' \<and>
           theta gw' < porosity (Aquifer sp (aquifer gw)) \<and>
           lowerDepth gw' < surfElev gw - bottomElev gw \<and>
           (wiltingPoint (Aquifer sp (aquifer gw)) \<le> porosity (Aquifer sp (aquifer gw)) - XTOL \<longrightarrow>
              wiltingPoint (Aquifer sp (aquifer gw)) \<le> theta gw') \<and>
           (XTOL \<le> surfElev gw - bottomElev gw \<longrightarrow> 0 \<le> lowerDepth gw')"
proof -
  let ?r = "integrated ext sp j gw evap infil tStep"
  have g: "A (snd ?r) = Aquifer sp (aquifer gw)" "TotalDepth (snd ?r) = surfElev gw - bottomElev gw"
    by (simp_all add: integrated_fields stepContext_fields)
  from committed_state(1,2) [OF assms, of evap infil tStep]
  obtain gw' where gw': "groundwater (Subcatch (gwater_getGroundwater ext sp j evap infil tStep) j) =
                           Some gw'"
      and th: "theta gw' = fst (keepWithinBounds (snd ?r) (fst ?r))"
      and ld: "lowerDepth gw' = snd (keepWithinBounds (snd ?r) (fst ?r))"
    by auto
  show ?thesis
    using gw' th ld keepWithinBounds_upper [of "snd ?r" "fst ?r"]
      keepWithinBounds_lower [of "snd ?r" "fst ?r"]
    by (simp add: g)
qed

lemma committed_flow_builtin:
  assumes "groundwater (Subcatch sp j) = Some gw"
      and "subcatch_getFracPerv ext j > 0"
      and "surfElev gw - bottomElev gw > 0"
      and "gwLatFlowExpr (Subcatch sp j) = None"
      and "Hgw (GwaterShared (gwater_getGroundwater ext sp j evap infil tStep)) \<le>
           Hstar (GwaterShared (gwater_getGroundwater ext sp j evap infil tStep))"
  shows "GWFlow (GwaterShared (gwater_getGroundwater ext sp j evap infil tStep)) =
           MIN_c 0 (MaxGWFlowPos (GwaterShared (gwater_getGroundwater ext sp j evap infil tStep)))"
proof -
  let ?r = "integrated ext sp j gw evap infil tStep"
  let ?x = "keepWithinBounds (snd ?r) (fst ?r)"
  let ?gw = "gw\<lparr>theta := fst ?x, lowerDepth := snd ?x\<rparr>"
  let ?g' = "getFluxes ext sp ?gw (snd ?r) (fst ?x) (snd ?x)"
  have run: "GwaterShared (gwater_getGroundwater ext sp j evap infil tStep) = ?g'"
    by (simp add: driver_completed [OF assms(1-3)] saveStateValues_shared)
  have s: "stepSetup ?g' = stepSetup (snd ?r)"
    by (rule getFluxes_setup)
  have lat: "LatFlowExpr (snd ?r) = None"
    by (simp add: integrated_fields stepContext_fields assms(4))
  have "MIN_c (MAX_c (snd ?x) 0) (TotalDepth (snd ?r)) \<le> Hstar (snd ?r)"
    using assms(5) by (simp add: run getFluxes_Hgw setup_fields [OF s])
  then have "getGWFlow ext ?gw (snd ?r) (MIN_c (MAX_c (snd ?x) 0) (TotalDepth (snd ?r))) = 0"
    by (simp add: getGWFlow_def)
  then show ?thesis
    by (simp add: run getFluxes_GWFlow_builtin [OF lat] setup_fields [OF s])
qed

subsection \<open>Lateral flow below the threshold\<close>

text \<open>
  At or below \<open>Hstar\<close> the built-in formula gives no flow, and a step that starts from
  a lower depth that is not negative commits a lateral flow of exactly 0 when the
  lower depth of its final flux calculation is at most \<open>Hstar\<close> and the subcatchment
  has no lateral flow expression.
\<close>

lemma getGWFlow_zero_below_Hstar: "ld \<le> Hstar gwtr \<Longrightarrow> getGWFlow ext gw gwtr ld = 0"
  by (simp add: getGWFlow_def)

lemma committed_flow_zero_below_Hstar:
  assumes "groundwater (Subcatch sp j) = Some gw"
      and "subcatch_getFracPerv ext j > 0"
      and "surfElev gw - bottomElev gw > 0"
      and "gwLatFlowExpr (Subcatch sp j) = None"
      and "Hgw (GwaterShared (gwater_getGroundwater ext sp j evap infil tStep)) \<le>
           Hstar (GwaterShared (gwater_getGroundwater ext sp j evap infil tStep))"
      and "0 \<le> lowerDepth gw" and "0 \<le> porosity (Aquifer sp (aquifer gw))" and "0 < tStep"
  shows "map_option newFlow (groundwater (Subcatch (gwater_getGroundwater ext sp j evap infil tStep) j)) =
           Some 0"
proof -
  have "MaxGWFlowPos (GwaterShared (gwater_getGroundwater ext sp j evap infil tStep)) =
          lowerDepth gw * porosity (Aquifer sp (aquifer gw)) / tStep"
    by (simp add: setup_fields [OF committed_shared(1) [OF assms(1-3)]] stepContext_fields)
  then have "0 \<le> MaxGWFlowPos (GwaterShared (gwater_getGroundwater ext sp j evap infil tStep))"
    using assms(6-8) by simp
  then show ?thesis
    using committed_state(3) [OF assms(1-3), of evap infil tStep]
      committed_flow_builtin [OF assms(1-5)]
    by (simp add: MIN_c_def)
qed

text \<open>
  Claim C4 and the code part at the first step of a run over \<open>thinGroundwater\<close>, which
  validation accepts. The total depth, 0.0008 ft, is less than \<open>XTOL\<close>, so
  \<open>gwater_initState\<close>, which keeps the lower depth \<open>XTOL\<close> below the total depth, starts
  the run at a lower depth of -0.0002 ft. The ceiling \<open>MaxGWFlowPos\<close> of the step, the
  lower depth before the step times the porosity divided by tStep, is then negative.
  In the final flux calculation the lower depth is not above \<open>Hstar\<close> and there is no
  lateral flow expression: the built-in flow is 0, the flux calculator takes the lesser
  of it and the ceiling, and the lateral flow committed is -0.000086, not 0.
\<close>

theorem gwater_getGroundwater_negative_flow_below_Hstar:
  "ErrorMsgs (started (exProject exAquifer thinGroundwater)) = [] \<and>
   groundwater (Subcatch (started (exProject exAquifer thinGroundwater)) 0) = Some thinStart \<and>
   gwLatFlowExpr (Subcatch (started (exProject exAquifer thinGroundwater)) 0) = None \<and>
   lowerDepth thinStart = - 0.0002 \<and>
   Hgw (GwaterShared thinRun) \<le> Hstar (GwaterShared thinRun) \<and>
   MaxGWFlowPos (GwaterShared thinRun) = - 0.000086 \<and>
   map_option newFlow (groundwater (Subcatch thinRun 0)) = Some (- 0.000086)"
proof -
  let ?sp = "started (exProject exAquifer thinGroundwater)"
  have start: "?sp = withGroundwater (exProject exAquifer thinGroundwater) 0 thinStart"
    by (simp add: started_def exProject_def exAquifer_def exGroundwater_def
        exExtern_def gwater_validateAquifer_def gwater_validate_def gwater_initState_def
        report_writeErrorMsg_def XTOL_def Let_def withGroundwater_def thinStart_def
        thinGroundwater_def)
  have h1: "groundwater (Subcatch ?sp 0) = Some thinStart"
    by (simp add: start withGroundwater_def)
  have h2: "subcatch_getFracPerv exExtern 0 > 0"
    by (simp add: exExtern_def)
  have h3: "surfElev thinStart - bottomElev thinStart > 0"
    by (simp add: thinStart_def thinGroundwater_def)
  have h4: "gwLatFlowExpr (Subcatch ?sp 0) = None"
    unfolding start by (simp add: withGroundwater_def exProject_def)
  have errs: "ErrorMsgs ?sp = []"
    unfolding start by (simp add: withGroundwater_def exProject_def)
  note shared = committed_shared [OF h1 h2 h3, of 0 0 1, folded thinRun_def]
  have "Hstar (GwaterShared thinRun) = Hstar (stepContext exExtern ?sp 0 thinStart 0 0 1)"
    by (rule setup_fields [OF shared(1)])
  then have hstar: "Hstar (GwaterShared thinRun) = 0.0008"
    by (simp add: stepContext_fields thinStart_def thinGroundwater_def exGroundwater_def
        exExtern_def)
  have "Hgw (GwaterShared thinRun) \<le> surfElev thinStart - bottomElev thinStart"
    unfolding shared(2) by (simp add: MIN_c_min)
  then have hgw: "Hgw (GwaterShared thinRun) \<le> 0.0008"
    by (simp add: thinStart_def thinGroundwater_def)
  have h5: "Hgw (GwaterShared thinRun) \<le> Hstar (GwaterShared thinRun)"
    using hstar hgw by simp
  have "MaxGWFlowPos (GwaterShared thinRun) =
          MaxGWFlowPos (stepContext exExtern ?sp 0 thinStart 0 0 1)"
    by (rule setup_fields [OF shared(1)])
  then have pos: "MaxGWFlowPos (GwaterShared thinRun) = - 0.000086"
    unfolding start
    by (simp add: stepContext_fields withGroundwater_def exProject_def exAquifer_def
        thinStart_def thinGroundwater_def exGroundwater_def)
  have "GWFlow (GwaterShared thinRun) = MIN_c 0 (MaxGWFlowPos (GwaterShared thinRun))"
    using committed_flow_builtin [OF h1 h2 h3 h4, of 0 0 1] h5
    by (simp add: thinRun_def)
  then have "map_option newFlow (groundwater (Subcatch thinRun 0)) = Some (- 0.000086)"
    using committed_state(3) [OF h1 h2 h3, of 0 0 1, folded thinRun_def]
    by (simp add: pos MIN_c_def)
  moreover have "lowerDepth thinStart = - 0.0002"
    by (simp add: thinStart_def)
  ultimately show ?thesis
    using errs h1 h4 h5 pos by simp
qed

subsection \<open>The moisture bound after a step\<close>

text \<open>The first step of a run over \<open>tightAquifer\<close>, piece by piece.\<close>

lemma started_tight:
  "started (exProject tightAquifer exGroundwater) =
     withGroundwater (exProject tightAquifer exGroundwater) 0 tightStart"
  by (simp add: started_def exProject_def tightAquifer_def exAquifer_def exGroundwater_def
      exExtern_def gwater_validateAquifer_def gwater_validate_def gwater_initState_def
      report_writeErrorMsg_def XTOL_def Let_def withGroundwater_def tightStart_def)

lemma tight_derivative:
  "fst (getDxDt exExtern (withGroundwater (exProject tightAquifer exGroundwater) 0 tightStart)
          tightStart
          (stepContext exExtern (withGroundwater (exProject tightAquifer exGroundwater) 0 tightStart)
             0 tightStart 0 0.0004 1)
          0 (0.4296, 5)) = (0.0004, 0)"
  by (simp add: getDxDt_def getFluxes_def getEvapRates_def getUpperPerc_def getGWFlow_def
      stepContext_def withGroundwater_def exProject_def tightAquifer_def exAquifer_def
      tightStart_def exGroundwater_def exExtern_def exShared_def MAX_c_def MIN_c_def Let_def
      dbl_0 dbl_nonneg)

lemma tight_integrated:
  "fst (integrated exExtern (started (exProject tightAquifer exGroundwater)) 0 tightStart
          0 0.0004 1) = (0.43, 5)"
proof -
  have "fst (integrated exExtern (started (exProject tightAquifer exGroundwater)) 0 tightStart
               0 0.0004 1) = (0.4296 + 1 * 0.0004, 5 + 1 * 0)"
    unfolding started_tight integrated_def
    using tight_derivative
    by (simp add: exExtern_def oneStep_def split_def tightStart_def)
  then show ?thesis
    by simp
qed

lemma tight_setup:
  "A (snd (integrated exExtern (started (exProject tightAquifer exGroundwater)) 0 tightStart
             0 0.0004 1)) = tightAquifer"
  "TotalDepth (snd (integrated exExtern (started (exProject tightAquifer exGroundwater)) 0
                      tightStart 0 0.0004 1)) = 6"
proof -
  let ?sp = "started (exProject tightAquifer exGroundwater)"
  let ?r = "integrated exExtern ?sp 0 tightStart 0 0.0004 1"
  have aq: "Aquifer ?sp (aquifer tightStart) = tightAquifer"
    unfolding started_tight by (simp add: withGroundwater_def exProject_def)
  have "A (snd ?r) = A (stepContext exExtern ?sp 0 tightStart 0 0.0004 1)"
    by (rule integrated_fields)
  also have "\<dots> = tightAquifer"
    by (simp only: stepContext_fields aq)
  finally show "A (snd ?r) = tightAquifer" .
  have "TotalDepth (snd ?r) = TotalDepth (stepContext exExtern ?sp 0 tightStart 0 0.0004 1)"
    by (rule integrated_fields)
  also have "\<dots> = 6"
    by (simp add: stepContext_fields tightStart_def exGroundwater_def)
  finally show "TotalDepth (snd ?r) = 6" .
qed

lemma tight_bounds:
  "keepWithinBounds
     (snd (integrated exExtern (started (exProject tightAquifer exGroundwater)) 0 tightStart
             0 0.0004 1))
     (fst (integrated exExtern (started (exProject tightAquifer exGroundwater)) 0 tightStart
             0 0.0004 1)) = (0.429, 5.999)"
  unfolding tight_integrated keepWithinBounds_def Let_def fst_conv snd_conv tight_setup
  by (simp add: MAX_c_def XTOL_def tightAquifer_def exAquifer_def)

text \<open>
  Claim C2 and the code part at the first step of a run over \<open>tightAquifer\<close>, which
  validation accepts (wilting point 0.4295, field capacity 0.4298, porosity 0.43).
  The infiltration fills the upper zone, the solver returns a moisture of 0.43, the
  block "keep state variables within allowable bounds" replaces it by the porosity
  less \<open>XTOL\<close>, and the moisture committed is 0.429, below the wilting point.
\<close>

theorem gwater_getGroundwater_theta_below_wiltingPoint:
  "ErrorMsgs (started (exProject tightAquifer exGroundwater)) = [] \<and>
   groundwater (Subcatch (started (exProject tightAquifer exGroundwater)) 0) = Some tightStart \<and>
   Aquifer (started (exProject tightAquifer exGroundwater)) (aquifer tightStart) = tightAquifer \<and>
   wiltingPoint tightAquifer = 0.4295 \<and>
   map_option theta (groundwater (Subcatch tightRun 0)) = Some 0.429 \<and>
   map_option lowerDepth (groundwater (Subcatch tightRun 0)) = Some 5.999 \<and>
   \<not> wiltingPoint tightAquifer \<le> 0.429"
proof -
  let ?sp = "started (exProject tightAquifer exGroundwater)"
  have h1: "groundwater (Subcatch ?sp 0) = Some tightStart"
    by (simp add: started_tight withGroundwater_def)
  have h2: "subcatch_getFracPerv exExtern 0 > 0"
    by (simp add: exExtern_def)
  have h3: "surfElev tightStart - bottomElev tightStart > 0"
    by (simp add: tightStart_def exGroundwater_def)
  have errs: "ErrorMsgs ?sp = []"
    unfolding started_tight by (simp add: withGroundwater_def exProject_def)
  have aq: "Aquifer ?sp (aquifer tightStart) = tightAquifer"
    unfolding started_tight by (simp add: withGroundwater_def exProject_def)
  have wp: "wiltingPoint tightAquifer = 0.4295"
    by (simp add: tightAquifer_def)
  note committed = committed_state(1,2) [OF h1 h2 h3, of 0 "0.0004" 1, folded tightRun_def,
      unfolded tight_bounds]
  have "map_option theta (groundwater (Subcatch tightRun 0)) = Some 0.429"
       "map_option lowerDepth (groundwater (Subcatch tightRun 0)) = Some 5.999"
    using committed by simp_all
  with errs h1 aq wp show ?thesis
    by simp
qed

end
